theory Spec2Isabelle
  imports Complex_Main
begin

section \<open>Values exchanged with the clients\<close>

text \<open>
  The server (\<^verbatim>\<open>Cinema-Server-Side.py\<close>) receives one JSON document per connection and
  answers with one JSON document. What \<^verbatim>\<open>json.loads\<close> returns is a Python value of one
  of seven kinds. Python's \<^verbatim>\<open>float\<close> is kept abstract: it is the type parameter \<open>'f\<close>,
  and the operations of the interpreter and of SQLite on it are the fields of the record
  \<open>python\<close> below, so that every theorem holds whatever those operations compute.
  A dict is the list of its items; its keys are distinct, and a lookup reads the list
  with \<^const>\<open>map_of\<close>.
\<close>

datatype 'f json =
    JNull
  | JBool bool
  | JInt int
  | JFloat 'f
  | JStr string
  | JArr "'f json list"
  | JObj "(string \<times> 'f json) list"

type_synonym 'f payload = "(string \<times> 'f json) list"

text \<open>The exceptions the handlers can meet; \<^verbatim>\<open>str(e)\<close> is left symbolic.\<close>

datatype exn =
    KeyError string
  | TypeError
  | ValueError
  | OverflowError
  | AttributeError
  | BindingError
  | IntegrityError
  | DatabaseFull
  | OSError

text \<open>
  The library operations the handlers call and that are not code of this repository:
  \<^verbatim>\<open>int(str)\<close>, \<^verbatim>\<open>float(str)\<close>, \<^verbatim>\<open>float(int)\<close> (\<open>None\<close>: the call raises),
  \<^verbatim>\<open>int(float)\<close>, the product of two floats, the tests for NaN and for zero, the text
  SQLite stores for a float in a TEXT column, and \<^verbatim>\<open>json.loads\<close> after
  \<^verbatim>\<open>decode("utf-8")\<close> (\<open>None\<close>: either raises).
\<close>

record 'f python =
  int_of_str :: "string \<Rightarrow> int option"
  float_of_str :: "string \<Rightarrow> 'f option"
  float_of_int :: "int \<Rightarrow> 'f option"
  int_of_float :: "'f \<Rightarrow> exn + int"
  float_mul :: "'f \<Rightarrow> 'f \<Rightarrow> 'f"
  float_is_nan :: "'f \<Rightarrow> bool"
  float_is_zero :: "'f \<Rightarrow> bool"
  text_of_real :: "'f \<Rightarrow> string"
  json_loads :: "string \<Rightarrow> 'f json option"

text \<open>What a handler reads from outside the database during one call.\<close>

record env =
  now_iso :: string
  now_stamp :: string
  receipt_ok :: bool

text \<open>Sequencing of steps that may raise: the first exception ends the computation.\<close>

definition thenE :: "'e + 'a \<Rightarrow> ('a \<Rightarrow> 'e + 'b) \<Rightarrow> 'e + 'b" where
  "thenE r f = (case r of Inl e \<Rightarrow> Inl e | Inr x \<Rightarrow> f x)"

text \<open>\<^verbatim>\<open>payload[k]\<close> and \<^verbatim>\<open>payload.get(k, d)\<close>.\<close>

definition getitem :: "'f payload \<Rightarrow> string \<Rightarrow> exn + 'f json" where
  "getitem payload k = (case map_of payload k of None \<Rightarrow> Inl (KeyError k) | Some v \<Rightarrow> Inr v)"

definition get_default :: "'f payload \<Rightarrow> string \<Rightarrow> 'f json \<Rightarrow> 'f json" where
  "get_default payload k d = (case map_of payload k of None \<Rightarrow> d | Some v \<Rightarrow> v)"

text \<open>\<^verbatim>\<open>int(v)\<close> and \<^verbatim>\<open>float(v)\<close> on a value that came out of \<^verbatim>\<open>json.loads\<close>.\<close>

fun int_py :: "'f python \<Rightarrow> 'f json \<Rightarrow> exn + int" where
  "int_py P JNull = Inl TypeError"
| "int_py P (JBool b) = Inr (if b then 1 else 0)"
| "int_py P (JInt n) = Inr n"
| "int_py P (JFloat x) = int_of_float P x"
| "int_py P (JStr s) = (case int_of_str P s of None \<Rightarrow> Inl ValueError | Some n \<Rightarrow> Inr n)"
| "int_py P (JArr xs) = Inl TypeError"
| "int_py P (JObj kvs) = Inl TypeError"

fun float_py :: "'f python \<Rightarrow> 'f json \<Rightarrow> exn + 'f" where
  "float_py P JNull = Inl TypeError"
| "float_py P (JBool b) =
     (case float_of_int P (if b then 1 else 0) of None \<Rightarrow> Inl OverflowError | Some x \<Rightarrow> Inr x)"
| "float_py P (JInt n) =
     (case float_of_int P n of None \<Rightarrow> Inl OverflowError | Some x \<Rightarrow> Inr x)"
| "float_py P (JFloat x) = Inr x"
| "float_py P (JStr s) = (case float_of_str P s of None \<Rightarrow> Inl ValueError | Some x \<Rightarrow> Inr x)"
| "float_py P (JArr xs) = Inl TypeError"
| "float_py P (JObj kvs) = Inl TypeError"

text \<open>The decimal text of an integer, as an f-string and SQLite's TEXT affinity write it.\<close>

definition digit_char :: "nat \<Rightarrow> char" where
  "digit_char d = ''0123456789'' ! d"

function str_nat :: "nat \<Rightarrow> string" where
  "str_nat n = (if n < 10 then [digit_char n] else str_nat (n div 10) @ [digit_char (n mod 10)])"
  by pat_completeness auto
termination
  by (relation "measure id") auto

definition str_int :: "int \<Rightarrow> string" where
  "str_int i = (if i < 0 then CHR ''-'' # str_nat (nat (- i)) else str_nat (nat i))"

text \<open>
  Reading a decimal text back: a row of digits as a natural number, with a minus
  sign in front as the negative of it.
\<close>

definition decimal :: "string \<Rightarrow> int option" where
  "decimal s =
     (if s \<noteq> [] \<and> (\<forall>c \<in> set s. c \<in> set ''0123456789'')
      then Some (fold (\<lambda>c n. 10 * n + int (of_char c) - 48) s 0) else None)"

definition read_int :: "string \<Rightarrow> int option" where
  "read_int s =
     (case s of
        [] \<Rightarrow> None
      | c # cs \<Rightarrow> if c = CHR ''-'' then map_option uminus (decimal cs) else decimal s)"

section \<open>The database\<close>

text \<open>
  The two tables of \<^verbatim>\<open>init_db\<close> (lines 40 to 58). A table with an
  \<^verbatim>\<open>INTEGER PRIMARY KEY AUTOINCREMENT\<close> is a B-tree keyed by the row id, which a
  \<^verbatim>\<open>SELECT\<close> without \<^verbatim>\<open>ORDER BY\<close> scans from the first key to the last: a table is
  the list of its rows in that order, together with the largest row id ever given out
  (SQLite's \<^verbatim>\<open>sqlite_sequence\<close>). A column that may hold NULL is an option.
\<close>

record 'f movie =
  id_movie :: int
  title :: string
  cinema_room :: int
  release_date :: "string option"
  end_date :: "string option"
  tickets_available :: int
  ticket_price :: "'f option"

record 'f sale =
  id_sale :: int
  movie_id :: int
  customer_name :: "string option"
  number_of_tickets :: int
  total :: "'f option"
  sale_time :: string

record 'f db =
  movies :: "'f movie list"
  movies_seq :: int
  sales :: "'f sale list"
  sales_seq :: int

text \<open>
  Binding a Python value to a statement parameter. An integer must fit SQLite's 64-bit
  INTEGER; a list or a dict is refused; NaN is stored as NULL. A TEXT column stores the
  decimal text of a number bound to it.
\<close>

definition int64 :: "int \<Rightarrow> bool" where
  "int64 n \<longleftrightarrow> - (2 ^ 63) \<le> n \<and> n < 2 ^ 63"

definition bind_int :: "int \<Rightarrow> exn + int" where
  "bind_int n = (if int64 n then Inr n else Inl OverflowError)"

definition bind_real :: "'f python \<Rightarrow> 'f \<Rightarrow> 'f option" where
  "bind_real P x = (if float_is_nan P x then None else Some x)"

fun bind_text :: "'f python \<Rightarrow> 'f json \<Rightarrow> exn + string option" where
  "bind_text P JNull = Inr None"
| "bind_text P (JBool b) = Inr (Some (str_int (if b then 1 else 0)))"
| "bind_text P (JInt n) = (if int64 n then Inr (Some (str_int n)) else Inl OverflowError)"
| "bind_text P (JFloat x) = Inr (if float_is_nan P x then None else Some (text_of_real P x))"
| "bind_text P (JStr s) = Inr (Some s)"
| "bind_text P (JArr xs) = Inl BindingError"
| "bind_text P (JObj kvs) = Inl BindingError"

text \<open>
  The row id AUTOINCREMENT chooses: one more than the largest id the table has ever
  held. When that id is the largest 64-bit integer the insertion fails.
\<close>

definition next_rowid :: "int \<Rightarrow> int list \<Rightarrow> exn + int" where
  "next_rowid seq ids =
     (let n = fold max ids seq + 1 in if int64 n then Inr n else Inl DatabaseFull)"

text \<open>The values of the six columns of a movie, once bound.\<close>

type_synonym 'f movie_row =
  "string option \<times> int \<times> string option \<times> string option \<times> int \<times> 'f option"

text \<open>
  The tuple that \<^verbatim>\<open>add_movie\<close> (lines 105 to 106) and \<^verbatim>\<open>update_movie\<close>
  (lines 121 to 122) build from the payload, left to right, and its binding.
\<close>

definition movie_params ::
  "'f python \<Rightarrow> 'f payload \<Rightarrow> exn + ('f json \<times> int \<times> 'f json \<times> 'f json \<times> int \<times> 'f)" where
  "movie_params P payload =
     thenE (getitem payload ''title'') (\<lambda>t.
     thenE (thenE (getitem payload ''cinema_room'') (int_py P)) (\<lambda>room.
     thenE (thenE (getitem payload ''tickets_available'') (int_py P)) (\<lambda>avail.
     thenE (thenE (getitem payload ''ticket_price'') (float_py P)) (\<lambda>price.
       Inr (t, room, get_default payload ''release_date'' (JStr ''''),
            get_default payload ''end_date'' (JStr ''''), avail, price)))))"

definition bind_movie ::
  "'f python \<Rightarrow> 'f json \<times> int \<times> 'f json \<times> 'f json \<times> int \<times> 'f \<Rightarrow> exn + 'f movie_row" where
  "bind_movie P params =
     (case params of (t, room, rd, ed, avail, price) \<Rightarrow>
        thenE (bind_text P t) (\<lambda>t'.
        thenE (bind_int room) (\<lambda>room'.
        thenE (bind_text P rd) (\<lambda>rd'.
        thenE (bind_text P ed) (\<lambda>ed'.
        thenE (bind_int avail) (\<lambda>avail'.
          Inr (t', room', rd', ed', avail', bind_real P price)))))))"

definition set_fields :: "'f movie_row \<Rightarrow> string \<Rightarrow> 'f movie \<Rightarrow> 'f movie" where
  "set_fields row t m =
     (case row of (_, room, rd, ed, avail, price) \<Rightarrow>
        m\<lparr>title := t, cinema_room := room, release_date := rd, end_date := ed,
          tickets_available := avail, ticket_price := price\<rparr>)"

text \<open>\<^verbatim>\<open>INSERT INTO movies\<close>: a fresh id, the NOT NULL check on the title, the new last row.\<close>

definition insert_movie :: "'f movie_row \<Rightarrow> 'f db \<Rightarrow> exn + 'f db" where
  "insert_movie row db =
     (case row of (t0, room, rd, ed, avail, price) \<Rightarrow>
        thenE (next_rowid (movies_seq db) (map id_movie (movies db))) (\<lambda>i.
          case t0 of
            None \<Rightarrow> Inl IntegrityError
          | Some t \<Rightarrow>
              Inr (db\<lparr>movies := movies db @
                          [\<lparr>id_movie = i, title = t, cinema_room = room, release_date = rd,
                            end_date = ed, tickets_available = avail, ticket_price = price\<rparr>],
                       movies_seq := i\<rparr>)))"

text \<open>
  \<^verbatim>\<open>UPDATE movies SET ... WHERE id=?\<close>: the number of rows matched, and the table
  after it. The NOT NULL check on the title is made only when a row is written.
\<close>

definition update_rows :: "'f movie_row \<Rightarrow> int \<Rightarrow> 'f db \<Rightarrow> exn + (nat \<times> 'f db)" where
  "update_rows row i db =
     (let changed = length (filter (\<lambda>m. id_movie m = i) (movies db)) in
      if changed = 0 then Inr (0, db)
      else case fst row of
             None \<Rightarrow> Inl IntegrityError
           | Some t \<Rightarrow>
               Inr (changed,
                    db\<lparr>movies := map (\<lambda>m. if id_movie m = i then set_fields row t m else m)
                                     (movies db)\<rparr>))"

text \<open>\<^verbatim>\<open>DELETE FROM movies WHERE id=?\<close>.\<close>

definition delete_rows :: "int \<Rightarrow> 'f db \<Rightarrow> nat \<times> 'f db" where
  "delete_rows i db =
     (length (filter (\<lambda>m. id_movie m = i) (movies db)),
      db\<lparr>movies := filter (\<lambda>m. id_movie m \<noteq> i) (movies db)\<rparr>)"

section \<open>The handlers\<close>

text \<open>
  A response is the dict a handler returns: \<open>Movies\<close> is
  \<^verbatim>\<open>{"status": "ok", "movies": [...]}\<close>, \<open>Ok m\<close> is \<^verbatim>\<open>{"status": "ok", "message": m}\<close>,
  \<open>Sold s r\<close> is the answer of a sale with its \<^verbatim>\<open>sale\<close> dict and the path of the
  receipt, \<open>Error m\<close> is \<^verbatim>\<open>{"status": "error", "message": m}\<close> and \<open>Raised e\<close> is
  \<^verbatim>\<open>{"status": "error", "message": str(e)}\<close>.
\<close>

datatype 'f response =
    Movies "'f payload list"
  | Ok string
  | Sold "'f payload" string
  | Error string
  | Raised exn

fun status :: "'f response \<Rightarrow> string" where
  "status (Movies ms) = ''ok''"
| "status (Ok m) = ''ok''"
| "status (Sold s r) = ''ok''"
| "status (Error m) = ''error''"
| "status (Raised e) = ''error''"

text \<open>\<^verbatim>\<open>list_movies\<close>, lines 78 to 95: one dict per row, in the order the rows come.\<close>

definition null_or :: "('a \<Rightarrow> 'f json) \<Rightarrow> 'a option \<Rightarrow> 'f json" where
  "null_or f v = (case v of None \<Rightarrow> JNull | Some x \<Rightarrow> f x)"

definition movie_dict :: "'f movie \<Rightarrow> 'f payload" where
  "movie_dict r =
     [(''id'', JInt (id_movie r)),
      (''title'', JStr (title r)),
      (''cinema_room'', JInt (cinema_room r)),
      (''release_date'', null_or JStr (release_date r)),
      (''end_date'', null_or JStr (end_date r)),
      (''tickets_available'', JInt (tickets_available r)),
      (''ticket_price'', null_or JFloat (ticket_price r))]"

definition list_movies :: "'f db \<Rightarrow> 'f response" where
  "list_movies db = Movies (map movie_dict (movies db))"

text \<open>\<^verbatim>\<open>add_movie\<close>, lines 98 to 111.\<close>

definition add_movie :: "'f python \<Rightarrow> 'f payload \<Rightarrow> 'f db \<Rightarrow> 'f response \<times> 'f db" where
  "add_movie P payload db =
     (case thenE (movie_params P payload) (\<lambda>params.
           thenE (bind_movie P params) (\<lambda>row. insert_movie row db)) of
        Inl e \<Rightarrow> (Raised e, db)
      | Inr db' \<Rightarrow> (Ok ''Movie added'', db'))"

text \<open>\<^verbatim>\<open>update_movie\<close>, lines 114 to 130.\<close>

definition update_movie :: "'f python \<Rightarrow> 'f payload \<Rightarrow> 'f db \<Rightarrow> 'f response \<times> 'f db" where
  "update_movie P payload db =
     (case thenE (movie_params P payload) (\<lambda>params.
           thenE (thenE (getitem payload ''id'') (int_py P)) (\<lambda>i.
           thenE (bind_movie P params) (\<lambda>row.
           thenE (bind_int i) (\<lambda>i'. update_rows row i' db)))) of
        Inl e \<Rightarrow> (Raised e, db)
      | Inr (changed, db') \<Rightarrow>
          if changed = 0 then (Error ''Movie id not found'', db')
          else (Ok ''Movie updated'', db'))"

text \<open>\<^verbatim>\<open>delete_movie\<close>, lines 133 to 145.\<close>

definition delete_movie :: "'f python \<Rightarrow> 'f payload \<Rightarrow> 'f db \<Rightarrow> 'f response \<times> 'f db" where
  "delete_movie P payload db =
     (case thenE (thenE (getitem payload ''id'') (int_py P)) bind_int of
        Inl e \<Rightarrow> (Raised e, db)
      | Inr i \<Rightarrow>
          (case delete_rows i db of (changed, db') \<Rightarrow>
             if changed = 0 then (Error ''Movie id not found'', db')
             else (Ok ''Movie deleted'', db')))"

text \<open>
  \<^verbatim>\<open>sell_tickets\<close>, lines 148 to 192. Lines 150 to 177 run inside one SQLite
  transaction: an exception before \<^verbatim>\<open>conn.commit()\<close> leaves the function with the
  connection uncommitted, and the database keeps the state it had. The receipt is
  written after the commit.
\<close>

definition times_price :: "'f python \<Rightarrow> int \<Rightarrow> 'f option \<Rightarrow> exn + 'f" where
  "times_price P requested price =
     (case price of
        None \<Rightarrow> Inl TypeError
      | Some p \<Rightarrow>
          (case float_of_int P requested of
             None \<Rightarrow> Inl OverflowError
           | Some r \<Rightarrow> Inr (float_mul P r p)))"

definition insert_sale ::
  "'f python \<Rightarrow> int \<Rightarrow> 'f json \<Rightarrow> int \<Rightarrow> 'f \<Rightarrow> string \<Rightarrow> 'f db \<Rightarrow> exn + 'f db" where
  "insert_sale P i name requested tot time db =
     thenE (bind_int i) (\<lambda>i'.
     thenE (bind_text P name) (\<lambda>name'.
     thenE (bind_int requested) (\<lambda>requested'.
     thenE (next_rowid (sales_seq db) (map id_sale (sales db))) (\<lambda>k.
       Inr (db\<lparr>sales := sales db @
                   [\<lparr>id_sale = k, movie_id = i', customer_name = name',
                     number_of_tickets = requested', total = bind_real P tot,
                     sale_time = time\<rparr>],
                sales_seq := k\<rparr>)))))"

text \<open>
  \<^verbatim>\<open>UPDATE movies SET tickets_available = tickets_available - ? WHERE id=?\<close>.
\<close>

definition decrement_rows :: "int \<Rightarrow> int \<Rightarrow> 'f db \<Rightarrow> 'f db" where
  "decrement_rows requested i db =
     db\<lparr>movies := map (\<lambda>m. if id_movie m = i
                              then m\<lparr>tickets_available := tickets_available m - requested\<rparr>
                              else m) (movies db)\<rparr>"

datatype 'f outcome =
    Rejected string
  | Committed int "'f payload" "'f db"

definition sell_transaction ::
  "'f python \<Rightarrow> env \<Rightarrow> 'f payload \<Rightarrow> 'f db \<Rightarrow> exn + 'f outcome" where
  "sell_transaction P e payload db =
     thenE (thenE (getitem payload ''movie_id'') (int_py P)) (\<lambda>i.
     thenE (getitem payload ''customer_name'') (\<lambda>name.
     thenE (thenE (getitem payload ''number_of_tickets'') (int_py P)) (\<lambda>requested.
       if requested \<le> 0 then Inr (Rejected ''Requested tickets must be > 0'')
       else
         thenE (bind_int i) (\<lambda>i'.
           case find (\<lambda>m. id_movie m = i') (movies db) of
             None \<Rightarrow> Inr (Rejected ''Movie not found'')
           | Some row \<Rightarrow>
               if requested > tickets_available row
               then Inr (Rejected (''Not enough tickets (available '' @
                                   str_int (tickets_available row) @ '')''))
               else
                 thenE (times_price P requested (ticket_price row)) (\<lambda>tot.
                 thenE (insert_sale P i name requested tot (now_iso e) db) (\<lambda>db'.
                   Inr (Committed i
                          [(''movie_id'', JInt i), (''title'', JStr (title row)),
                           (''customer'', name), (''tickets'', JInt requested),
                           (''total'', JFloat tot)]
                          (decrement_rows requested i db'))))))))"

definition receipt_name :: "env \<Rightarrow> int \<Rightarrow> string" where
  "receipt_name e i = ''server_receipts/receipt_'' @ now_stamp e @ ''_'' @ str_int i @ ''.txt''"

definition sell_tickets ::
  "'f python \<Rightarrow> env \<Rightarrow> 'f payload \<Rightarrow> 'f db \<Rightarrow> 'f response \<times> 'f db" where
  "sell_tickets P e payload db =
     (case sell_transaction P e payload db of
        Inl x \<Rightarrow> (Raised x, db)
      | Inr (Rejected m) \<Rightarrow> (Error m, db)
      | Inr (Committed i s db') \<Rightarrow>
          if receipt_ok e then (Sold s (receipt_name e i), db') else (Raised OSError, db'))"

text \<open>
  The sale as the threads run it. \<^verbatim>\<open>start_server\<close> starts one thread per connection
  (line 270), and every call of \<^verbatim>\<open>sell_tickets\<close> opens a connection of its own
  (line 156). The \<^verbatim>\<open>SELECT\<close> of line 158 runs outside any transaction; the
  transaction begins with the \<^verbatim>\<open>INSERT\<close> of line 170 and holds SQLite's write lock
  until the commit of line 176. A sale is therefore two steps, each of them atomic:
  the check of lines 150 to 166, on the store of that moment, and the write of
  lines 168 to 189, on the store of a later moment and with the row the check has read.
\<close>

datatype 'f checked =
    Refused "'f response"
  | Passed int "'f json" int "'f movie"

definition sell_check :: "'f python \<Rightarrow> 'f payload \<Rightarrow> 'f db \<Rightarrow> 'f checked" where
  "sell_check P payload db =
     (case
        thenE (thenE (getitem payload ''movie_id'') (int_py P)) (\<lambda>i.
        thenE (getitem payload ''customer_name'') (\<lambda>name.
        thenE (thenE (getitem payload ''number_of_tickets'') (int_py P)) (\<lambda>requested.
          if requested \<le> 0 then Inr (Refused (Error ''Requested tickets must be > 0''))
          else
            thenE (bind_int i) (\<lambda>i'.
              case find (\<lambda>m. id_movie m = i') (movies db) of
                None \<Rightarrow> Inr (Refused (Error ''Movie not found''))
              | Some row \<Rightarrow>
                  if requested > tickets_available row
                  then Inr (Refused (Error (''Not enough tickets (available '' @
                                            str_int (tickets_available row) @ '')'')))
                  else Inr (Passed i name requested row)))))
      of Inl x \<Rightarrow> Refused (Raised x) | Inr c \<Rightarrow> c)"

definition sell_write ::
  "'f python \<Rightarrow> env \<Rightarrow> int \<Rightarrow> 'f json \<Rightarrow> int \<Rightarrow> 'f movie \<Rightarrow> 'f db \<Rightarrow> 'f response \<times> 'f db" where
  "sell_write P e i name requested row db =
     (case
        thenE (times_price P requested (ticket_price row)) (\<lambda>tot.
        thenE (insert_sale P i name requested tot (now_iso e) db) (\<lambda>db'.
          Inr (tot, decrement_rows requested i db')))
      of
        Inl x \<Rightarrow> (Raised x, db)
      | Inr (tot, db') \<Rightarrow>
          if receipt_ok e
          then (Sold [(''movie_id'', JInt i), (''title'', JStr (title row)),
                      (''customer'', name), (''tickets'', JInt requested),
                      (''total'', JFloat tot)]
                  (receipt_name e i), db')
          else (Raised OSError, db'))"

text \<open>
  A thread has received its request, or has passed the check and holds what it read, or
  has answered. A schedule names the thread that takes the next step.
\<close>

datatype 'f thread =
    Arrived "'f payload"
  | Checked int "'f json" int "'f movie"
  | Answered "'f response"

fun step :: "'f python \<Rightarrow> env \<Rightarrow> 'f thread \<Rightarrow> 'f db \<Rightarrow> 'f thread \<times> 'f db" where
  "step P e (Arrived payload) db =
     (case sell_check P payload db of
        Refused r \<Rightarrow> (Answered r, db)
      | Passed i name requested row \<Rightarrow> (Checked i name requested row, db))"
| "step P e (Checked i name requested row) db =
     (case sell_write P e i name requested row db of (r, db') \<Rightarrow> (Answered r, db'))"
| "step P e (Answered r) db = (Answered r, db)"

fun run_threads ::
  "'f python \<Rightarrow> env \<Rightarrow> nat list \<Rightarrow> 'f thread list \<Rightarrow> 'f db \<Rightarrow> 'f thread list \<times> 'f db" where
  "run_threads P e [] ts db = (ts, db)"
| "run_threads P e (k # ks) ts db =
     (if k < length ts
      then (case step P e (ts ! k) db of (t, db') \<Rightarrow> run_threads P e ks (ts[k := t]) db')
      else run_threads P e ks ts db)"

section \<open>Dispatcher and connection handler\<close>

text \<open>
  \<^verbatim>\<open>handle_request\<close>, lines 196 to 208. \<^verbatim>\<open>obj.get\<close> exists on a dict only; on any other
  value the attribute lookup raises, and \<^verbatim>\<open>client_thread\<close> catches it.
\<close>

definition handle_request ::
  "'f python \<Rightarrow> env \<Rightarrow> 'f json \<Rightarrow> 'f db \<Rightarrow> exn + ('f response \<times> 'f db)" where
  "handle_request P e obj db =
     (case obj of
        JObj kvs \<Rightarrow>
          (let action = get_default kvs ''action'' JNull in
           if action = JStr ''list_movies'' then Inr (list_movies db, db)
           else if action = JStr ''add_movie'' then Inr (add_movie P kvs db)
           else if action = JStr ''update_movie'' then Inr (update_movie P kvs db)
           else if action = JStr ''delete_movie'' then Inr (delete_movie P kvs db)
           else if action = JStr ''sell'' then Inr (sell_tickets P e kvs db)
           else Inr (Error ''Unknown action'', db))
      | _ \<Rightarrow> Inl AttributeError)"

text \<open>
  \<^verbatim>\<open>recv_json\<close>, lines 217 to 236. The connection is the list of the chunks that
  \<^verbatim>\<open>conn.recv\<close> returns; after the last one the peer has closed and \<^verbatim>\<open>recv\<close> returns
  the empty chunk. Python's \<^verbatim>\<open>None\<close> is \<open>JNull\<close>.
\<close>

definition loads_or_none :: "'f python \<Rightarrow> string \<Rightarrow> 'f json" where
  "loads_or_none P s = (case json_loads P s of None \<Rightarrow> JNull | Some v \<Rightarrow> v)"

definition at_eof :: "'f python \<Rightarrow> string \<Rightarrow> 'f json" where
  "at_eof P buffer = (if buffer \<noteq> [] then loads_or_none P buffer else JNull)"

fun recv_json :: "'f python \<Rightarrow> string list \<Rightarrow> string \<Rightarrow> 'f json" where
  "recv_json P [] buffer = at_eof P buffer"
| "recv_json P (chunk # rest) buffer =
     (if chunk = [] then at_eof P buffer
      else if CHR 0x0A \<in> set (buffer @ chunk)
           then loads_or_none P (takeWhile (\<lambda>c. c \<noteq> CHR 0x0A) (buffer @ chunk))
           else recv_json P rest (buffer @ chunk))"

text \<open>The truth value of a Python value, as \<^verbatim>\<open>not req\<close> reads it.\<close>

fun falsy :: "'f python \<Rightarrow> 'f json \<Rightarrow> bool" where
  "falsy P JNull = True"
| "falsy P (JBool b) = (\<not> b)"
| "falsy P (JInt n) = (n = 0)"
| "falsy P (JFloat x) = float_is_zero P x"
| "falsy P (JStr s) = (s = [])"
| "falsy P (JArr xs) = (xs = [])"
| "falsy P (JObj kvs) = (kvs = [])"

text \<open>\<^verbatim>\<open>client_thread\<close>, lines 239 to 257: the response sent, and the database after.\<close>

definition client_thread ::
  "'f python \<Rightarrow> env \<Rightarrow> string list \<Rightarrow> 'f db \<Rightarrow> 'f response \<times> 'f db" where
  "client_thread P e chunks db =
     (let req = recv_json P chunks [] in
      if falsy P req then (Error ''Invalid or empty request'', db)
      else (case handle_request P e req db of
              Inl x \<Rightarrow> (Raised x, db)
            | Inr r \<Rightarrow> r))"

section \<open>Properties of the store\<close>

text \<open>
  The primary key keeps the row ids of a table distinct, and the B-tree keeps them in
  ascending order; every handler preserves both (lemmas \<open>ascending_client_thread\<close>
  and \<open>distinct_ids_client_thread\<close> below).
\<close>

definition ascending_ids :: "'f db \<Rightarrow> bool" where
  "ascending_ids db \<longleftrightarrow> sorted_wrt (<) (map id_movie (movies db))"

definition distinct_ids :: "'f db \<Rightarrow> bool" where
  "distinct_ids db \<longleftrightarrow> distinct (map id_movie (movies db))"


text \<open>
  A request whose movie fields have the types of the wire protocol: the title and the
  two dates are strings, \<^verbatim>\<open>cinema_room\<close> and \<^verbatim>\<open>tickets_available\<close> are integers that fit
  64 bits, and \<^verbatim>\<open>ticket_price\<close> is a value that \<^verbatim>\<open>float()\<close> reads as \<open>x\<close>.
\<close>

definition movie_fields ::
  "'f python \<Rightarrow> 'f payload \<Rightarrow> string \<Rightarrow> int \<Rightarrow> string \<Rightarrow> string \<Rightarrow> int \<Rightarrow> 'f \<Rightarrow> bool" where
  "movie_fields P p t room rd ed avail x \<longleftrightarrow>
     map_of p ''title'' = Some (JStr t) \<and>
     map_of p ''cinema_room'' = Some (JInt room) \<and> int64 room \<and>
     map_of p ''release_date'' = Some (JStr rd) \<and>
     map_of p ''end_date'' = Some (JStr ed) \<and>
     map_of p ''tickets_available'' = Some (JInt avail) \<and> int64 avail \<and>
     (case map_of p ''ticket_price'' of None \<Rightarrow> False | Some v \<Rightarrow> float_py P v = Inr x)"

text \<open>The connections served one after the other, each with what it reads from outside.\<close>

fun serve_all :: "'f python \<Rightarrow> (env \<times> string list) list \<Rightarrow> 'f db \<Rightarrow> 'f db" where
  "serve_all P [] db = db"
| "serve_all P (c # cs) db = serve_all P cs (snd (client_thread P (fst c) (snd c) db))"

text \<open>The id a dict of a listing carries, and the keys of such a dict.\<close>

definition dict_id :: "'f payload \<Rightarrow> int option" where
  "dict_id d = (case map_of d ''id'' of Some (JInt i) \<Rightarrow> Some i | _ \<Rightarrow> None)"

definition movie_keys :: "string list" where
  "movie_keys = [''id'', ''title'', ''cinema_room'', ''release_date'', ''end_date'',
                 ''tickets_available'', ''ticket_price'']"

section \<open>An instance to run the model\<close>

text \<open>
  The theorems below hold for every \<open>python\<close> record. To evaluate the handlers on
  concrete requests, the library operations are instantiated over the rationals: numbers
  are exact, no float is NaN, a string is read as a number when it is a row of decimal
  digits, a float bound to a TEXT column is written as its integer part, and the JSON
  text \<^verbatim>\<open>{}\<close> is the only document the parser of the instance knows. The requests
  evaluated below carry JSON integers and strings only, and bind no float to text.
\<close>

definition exact_python :: "rat python" where
  "exact_python =
     \<lparr>int_of_str = decimal,
      float_of_str = (\<lambda>s. map_option of_int (decimal s)),
      float_of_int = (\<lambda>n. Some (of_int n)),
      int_of_float = (\<lambda>x. Inr (if x < 0 then - \<lfloor>- x\<rfloor> else \<lfloor>x\<rfloor>)),
      float_mul = (\<lambda>x y. x * y),
      float_is_nan = (\<lambda>x. False),
      float_is_zero = (\<lambda>x. x = 0),
      text_of_real = (\<lambda>x. str_int \<lfloor>x\<rfloor>),
      json_loads = (\<lambda>s. if s = ''{}'' then Some (JObj []) else None)\<rparr>"

definition env0 :: env where
  "env0 = \<lparr>now_iso = ''2025-06-01T12:00:00'', now_stamp = ''20250601120000'',
            receipt_ok = True\<rparr>"

definition empty_db :: "'f db" where
  "empty_db = \<lparr>movies = [], movies_seq = 0, sales = [], sales_seq = 0\<rparr>"

text \<open>The first row of the sample table of \<^verbatim>\<open>init_db\<close> (line 64), alone in the store.\<close>

definition matrix_db :: "rat db" where
  "matrix_db =
     \<lparr>movies = [\<lparr>id_movie = 1, title = ''The Matrix'', cinema_room = 1,
                  release_date = Some ''2025-06-01'', end_date = Some ''2025-06-30'',
                  tickets_available = 100, ticket_price = Some 120\<rparr>],
      movies_seq = 1, sales = [], sales_seq = 0\<rparr>"

text \<open>
  The sale request of the protocol examples,
  \<^verbatim>\<open>{"action":"sell","movie_id":1,"customer_name":"Ada","number_of_tickets":n}\<close>.
\<close>

definition sell_request :: "int \<Rightarrow> 'f payload" where
  "sell_request n =
     [(''action'', JStr ''sell''), (''movie_id'', JInt 1), (''customer_name'', JStr ''Ada''),
      (''number_of_tickets'', JInt n)]"

text \<open>An admin request for the movie \<open>i\<close>, with a title and a count.\<close>

definition admin_request :: "int \<Rightarrow> string \<Rightarrow> int \<Rightarrow> 'f payload" where
  "admin_request i t n =
     [(''id'', JInt i), (''title'', JStr t), (''cinema_room'', JInt 2),
      (''release_date'', JStr ''2025-07-01''), (''end_date'', JStr ''2025-07-31''),
      (''tickets_available'', JInt n), (''ticket_price'', JInt 90)]"

section \<open>Auxiliary facts\<close>

subsection \<open>Sequencing and row ids\<close>

lemma thenE_Inl [simp]: "thenE (Inl e) f = Inl e"
  by (simp add: thenE_def)

lemma thenE_Inr [simp]: "thenE (Inr x) f = f x"
  by (simp add: thenE_def)

lemma thenE_is_Inr: "thenE r f = Inr y \<longleftrightarrow> (\<exists>x. r = Inr x \<and> f x = Inr y)"
  by (cases r) simp_all

lemma fold_max_start: "s \<le> fold max xs (s::int)"
  by (induction xs arbitrary: s) (auto intro: order_trans [OF max.cobounded2])

lemma fold_max_member: "x \<in> set xs \<Longrightarrow> x \<le> fold max xs (s::int)"
proof (induction xs arbitrary: s)
  case Nil
  then show ?case by simp
next
  case (Cons a xs)
  show ?case
  proof (cases "x = a")
    case True
    have "a \<le> max a s" by simp
    also have "\<dots> \<le> fold max xs (max a s)" by (rule fold_max_start)
    finally show ?thesis using True by simp
  next
    case False
    with Cons show ?thesis by simp
  qed
qed

lemma next_rowid_above: "next_rowid seq ids = Inr i \<Longrightarrow> x \<in> set ids \<Longrightarrow> x < i"
  using fold_max_member [of x ids seq]
  by (auto simp: next_rowid_def Let_def split: if_splits)

lemma next_rowid_int64: "next_rowid seq ids = Inr i \<Longrightarrow> int64 i"
  by (auto simp: next_rowid_def Let_def split: if_splits)

lemma insert_movie_Inr:
  "insert_movie row db = Inr db' \<Longrightarrow>
     \<exists>i t. next_rowid (movies_seq db) (map id_movie (movies db)) = Inr i \<and> fst row = Some t \<and>
       db' = db\<lparr>movies := movies db @
                  [\<lparr>id_movie = i, title = t, cinema_room = fst (snd row),
                    release_date = fst (snd (snd row)), end_date = fst (snd (snd (snd row))),
                    tickets_available = fst (snd (snd (snd (snd row)))),
                    ticket_price = snd (snd (snd (snd (snd row))))\<rparr>],
                movies_seq := i\<rparr>"
  by (auto simp: insert_movie_def thenE_is_Inr split: prod.splits option.splits)

lemma movie_params_Inr:
  "movie_params P p = Inr params \<longleftrightarrow>
     (\<exists>t room avail price.
        getitem p ''title'' = Inr t \<and>
        thenE (getitem p ''cinema_room'') (int_py P) = Inr room \<and>
        thenE (getitem p ''tickets_available'') (int_py P) = Inr avail \<and>
        thenE (getitem p ''ticket_price'') (float_py P) = Inr price \<and>
        params = (t, room, get_default p ''release_date'' (JStr []),
                  get_default p ''end_date'' (JStr []), avail, price))"
  unfolding movie_params_def by (auto simp: thenE_is_Inr)

lemma bind_movie_Inr:
  "bind_movie P (t, room, rd, ed, avail, price) = Inr row \<longleftrightarrow>
     (\<exists>t' rd' ed'. bind_text P t = Inr t' \<and> int64 room \<and> bind_text P rd = Inr rd' \<and>
        bind_text P ed = Inr ed' \<and> int64 avail \<and>
        row = (t', room, rd', ed', avail, bind_real P price))"
  unfolding bind_movie_def by (auto simp: thenE_is_Inr bind_int_def split: if_splits)

subsection \<open>What a sale does to the store\<close>

lemma insert_sale_Inr:
  "insert_sale P i name n tot time db = Inr dbs \<longleftrightarrow>
     (\<exists>k nm. int64 i \<and> bind_text P name = Inr nm \<and> int64 n \<and>
        next_rowid (sales_seq db) (map id_sale (sales db)) = Inr k \<and>
        dbs = db\<lparr>sales := sales db @
                   [\<lparr>id_sale = k, movie_id = i, customer_name = nm, number_of_tickets = n,
                     total = bind_real P tot, sale_time = time\<rparr>],
                 sales_seq := k\<rparr>)"
  unfolding insert_sale_def by (auto simp: thenE_is_Inr bind_int_def split: if_splits)

lemma sell_transaction_Committed:
  "sell_transaction P e p db = Inr (Committed i s db') \<Longrightarrow>
     (\<exists>name n row tot dbs.
        thenE (getitem p ''movie_id'') (int_py P) = Inr i \<and>
        getitem p ''customer_name'' = Inr name \<and>
        thenE (getitem p ''number_of_tickets'') (int_py P) = Inr n \<and>
        0 < n \<and> int64 i \<and>
        find (\<lambda>m. id_movie m = i) (movies db) = Some row \<and>
        n \<le> tickets_available row \<and>
        times_price P n (ticket_price row) = Inr tot \<and>
        insert_sale P i name n tot (now_iso e) db = Inr dbs \<and>
        s = [(''movie_id'', JInt i), (''title'', JStr (title row)), (''customer'', name),
             (''tickets'', JInt n), (''total'', JFloat tot)] \<and>
        db' = decrement_rows n i dbs)"
  unfolding sell_transaction_def
  by (auto simp: thenE_is_Inr bind_int_def split: if_splits option.splits)

lemma sell_tickets_result:
  assumes "sell_tickets P e p db = (r, db')"
  shows "(db' = db \<and> status r = ''error'') \<or>
         (\<exists>i n row sl.
            thenE (getitem p ''movie_id'') (int_py P) = Inr i \<and>
            thenE (getitem p ''number_of_tickets'') (int_py P) = Inr n \<and>
            0 < n \<and> find (\<lambda>m. id_movie m = i) (movies db) = Some row \<and>
            n \<le> tickets_available row \<and>
            movies db' = map (\<lambda>m. if id_movie m = i
                                   then m\<lparr>tickets_available := tickets_available m - n\<rparr>
                                   else m) (movies db) \<and>
            sales db' = sales db @ [sl] \<and> movie_id sl = i \<and> number_of_tickets sl = n \<and>
            movies_seq db' = movies_seq db)"
proof (cases "sell_transaction P e p db")
  case (Inl x)
  with assms show ?thesis by (auto simp: sell_tickets_def)
next
  case (Inr out)
  show ?thesis
  proof (cases out)
    case (Rejected m)
    with Inr assms show ?thesis by (auto simp: sell_tickets_def)
  next
    case (Committed i s dbc)
    with Inr assms have d: "db' = dbc" by (simp add: sell_tickets_def split: if_splits)
    from Inr Committed obtain name n row tot dbs where
      h: "thenE (getitem p ''movie_id'') (int_py P) = Inr i"
         "thenE (getitem p ''number_of_tickets'') (int_py P) = Inr n"
         "0 < n" "find (\<lambda>m. id_movie m = i) (movies db) = Some row"
         "n \<le> tickets_available row"
         "insert_sale P i name n tot (now_iso e) db = Inr dbs"
         "dbc = decrement_rows n i dbs"
      using sell_transaction_Committed [of P e p db i s dbc] by auto
    from h(6) obtain k nm where
      s: "dbs = db\<lparr>sales := sales db @
                   [\<lparr>id_sale = k, movie_id = i, customer_name = nm, number_of_tickets = n,
                     total = bind_real P tot, sale_time = now_iso e\<rparr>],
                 sales_seq := k\<rparr>"
      unfolding insert_sale_Inr by blast
    have "movies db' = map (\<lambda>m. if id_movie m = i
                                   then m\<lparr>tickets_available := tickets_available m - n\<rparr>
                                   else m) (movies db)"
      and "sales db' = sales db @ [\<lparr>id_sale = k, movie_id = i, customer_name = nm, number_of_tickets = n,
                     total = bind_real P tot, sale_time = now_iso e\<rparr>]"
      and "movies_seq db' = movies_seq db"
      using d h(7) s by (simp_all add: decrement_rows_def)
    with h show ?thesis by auto
  qed
qed

subsection \<open>What the catalog handlers do to the store\<close>

lemma add_movie_result:
  "(\<exists>x. add_movie P p db = (Raised x, db)) \<or>
   (\<exists>t room rd ed avail price t' rd' ed' i.
      movie_params P p = Inr (t, room, rd, ed, avail, price) \<and>
      bind_text P t = Inr (Some t') \<and> int64 room \<and> bind_text P rd = Inr rd' \<and>
      bind_text P ed = Inr ed' \<and> int64 avail \<and>
      next_rowid (movies_seq db) (map id_movie (movies db)) = Inr i \<and>
      add_movie P p db =
        (Ok ''Movie added'',
         db\<lparr>movies := movies db @
                [\<lparr>id_movie = i, title = t', cinema_room = room, release_date = rd',
                  end_date = ed', tickets_available = avail,
                  ticket_price = bind_real P price\<rparr>],
             movies_seq := i\<rparr>))"
proof (cases "movie_params P p")
  case (Inl x)
  then show ?thesis by (simp add: add_movie_def)
next
  case (Inr params)
  obtain t room rd ed avail price where ps: "params = (t, room, rd, ed, avail, price)"
    by (cases params) auto
  show ?thesis
  proof (cases "bind_movie P params")
    case (Inl x)
    with Inr show ?thesis by (simp add: add_movie_def)
  next
    case b: (Inr row)
    then obtain t0 rd' ed' where
      r: "bind_text P t = Inr t0" "int64 room" "bind_text P rd = Inr rd'"
         "bind_text P ed = Inr ed'" "int64 avail"
         "row = (t0, room, rd', ed', avail, bind_real P price)"
      unfolding ps bind_movie_Inr by blast
    show ?thesis
    proof (cases "insert_movie row db")
      case (Inl x)
      with Inr b show ?thesis by (simp add: add_movie_def)
    next
      case i: (Inr db')
      from insert_movie_Inr [OF i] obtain k t' where
        k: "next_rowid (movies_seq db) (map id_movie (movies db)) = Inr k" "fst row = Some t'"
           "db' = db\<lparr>movies := movies db @
                  [\<lparr>id_movie = k, title = t', cinema_room = fst (snd row),
                    release_date = fst (snd (snd row)), end_date = fst (snd (snd (snd row))),
                    tickets_available = fst (snd (snd (snd (snd row)))),
                    ticket_price = snd (snd (snd (snd (snd row))))\<rparr>],
                movies_seq := k\<rparr>"
        by blast
      have "add_movie P p db = (Ok ''Movie added'', db')"
        using Inr b i by (simp add: add_movie_def)
      with k r Inr ps show ?thesis by auto
    qed
  qed
qed

lemma set_fields_id [simp]: "id_movie (set_fields row t m) = id_movie m"
  by (cases row) (auto simp: set_fields_def)

lemma update_rows_Inr:
  "update_rows row i db = Inr (changed, db') \<Longrightarrow>
     (changed = 0 \<and> db' = db \<and> (\<forall>m \<in> set (movies db). id_movie m \<noteq> i)) \<or>
     (changed \<noteq> 0 \<and> (\<exists>m \<in> set (movies db). id_movie m = i) \<and>
      (\<exists>t. fst row = Some t \<and>
         db' = db\<lparr>movies := map (\<lambda>m. if id_movie m = i then set_fields row t m else m)
                                (movies db)\<rparr>))"
  by (auto simp: update_rows_def Let_def filter_empty_conv split: if_splits option.splits)

lemma update_movie_result:
  "(\<exists>x. update_movie P p db = (Raised x, db)) \<or>
   update_movie P p db = (Error ''Movie id not found'', db) \<or>
   (\<exists>params row t i.
      movie_params P p = Inr params \<and> bind_movie P params = Inr row \<and> fst row = Some t \<and>
      thenE (getitem p ''id'') (int_py P) = Inr i \<and> int64 i \<and>
      (\<exists>m \<in> set (movies db). id_movie m = i) \<and>
      update_movie P p db =
        (Ok ''Movie updated'',
         db\<lparr>movies := map (\<lambda>m. if id_movie m = i then set_fields row t m else m)
                          (movies db)\<rparr>))"
proof (cases "thenE (movie_params P p) (\<lambda>params.
           thenE (thenE (getitem p ''id'') (int_py P)) (\<lambda>i.
           thenE (bind_movie P params) (\<lambda>row.
           thenE (bind_int i) (\<lambda>i'. update_rows row i' db))))")
  case (Inl x)
  then show ?thesis by (simp add: update_movie_def)
next
  case (Inr res)
  obtain changed db' where res: "res = (changed, db')" by (cases res) auto
  from Inr obtain params i row where
    h: "movie_params P p = Inr params" "thenE (getitem p ''id'') (int_py P) = Inr i"
       "bind_movie P params = Inr row" "int64 i" "update_rows row i db = Inr (changed, db')"
    unfolding res by (auto simp: thenE_is_Inr bind_int_def split: if_splits)
  have u: "update_movie P p db =
             (if changed = 0 then (Error ''Movie id not found'', db') else (Ok ''Movie updated'', db'))"
    using Inr res by (simp add: update_movie_def)
  from update_rows_Inr [OF h(5)] show ?thesis
  proof
    assume "changed = 0 \<and> db' = db \<and> (\<forall>m \<in> set (movies db). id_movie m \<noteq> i)"
    with u show ?thesis by simp
  next
    assume "changed \<noteq> 0 \<and> (\<exists>m \<in> set (movies db). id_movie m = i) \<and>
      (\<exists>t. fst row = Some t \<and>
         db' = db\<lparr>movies := map (\<lambda>m. if id_movie m = i then set_fields row t m else m)
                                (movies db)\<rparr>)"
    then obtain t where
      t: "changed \<noteq> 0" "\<exists>m \<in> set (movies db). id_movie m = i" "fst row = Some t"
         "db' = db\<lparr>movies := map (\<lambda>m. if id_movie m = i then set_fields row t m else m)
                                  (movies db)\<rparr>"
      by blast
    from u t(1,4) have "update_movie P p db =
        (Ok ''Movie updated'',
         db\<lparr>movies := map (\<lambda>m. if id_movie m = i then set_fields row t m else m)
                          (movies db)\<rparr>)"
      by simp
    with h t(2,3) show ?thesis by blast
  qed
qed

lemma delete_movie_result:
  "(\<exists>x. delete_movie P p db = (Raised x, db)) \<or>
   (\<exists>i. thenE (getitem p ''id'') (int_py P) = Inr i \<and> int64 i \<and>
      ((\<forall>m \<in> set (movies db). id_movie m \<noteq> i) \<and>
         delete_movie P p db = (Error ''Movie id not found'', db) \<or>
       (\<exists>m \<in> set (movies db). id_movie m = i) \<and>
         delete_movie P p db =
           (Ok ''Movie deleted'', db\<lparr>movies := filter (\<lambda>m. id_movie m \<noteq> i) (movies db)\<rparr>)))"
proof (cases "thenE (thenE (getitem p ''id'') (int_py P)) bind_int")
  case (Inl x)
  then show ?thesis by (simp add: delete_movie_def)
next
  case (Inr i)
  then have c: "thenE (getitem p ''id'') (int_py P) = Inr i" "int64 i"
    by (auto simp: thenE_is_Inr bind_int_def split: if_splits)
  show ?thesis
  proof (cases "\<forall>m \<in> set (movies db). id_movie m \<noteq> i")
    case True
    then have "filter (\<lambda>m. id_movie m = i) (movies db) = []"
      and "filter (\<lambda>m. id_movie m \<noteq> i) (movies db) = movies db"
      by (auto simp: filter_empty_conv filter_id_conv)
    with Inr have "delete_movie P p db = (Error ''Movie id not found'', db)"
      by (simp add: delete_movie_def delete_rows_def)
    with c True show ?thesis by blast
  next
    case False
    then have "filter (\<lambda>m. id_movie m = i) (movies db) \<noteq> []"
      by (auto simp: filter_empty_conv)
    with Inr have "delete_movie P p db =
           (Ok ''Movie deleted'', db\<lparr>movies := filter (\<lambda>m. id_movie m \<noteq> i) (movies db)\<rparr>)"
      by (simp add: delete_movie_def delete_rows_def)
    with c False show ?thesis by blast
  qed
qed

subsection \<open>The order of the row ids is kept\<close>

lemma ids_update [simp]:
  "id_movie \<circ> (\<lambda>m. if id_movie m = i then set_fields row t m else m) = id_movie"
  by (rule ext) simp

lemma ids_decrement [simp]:
  "id_movie \<circ> (\<lambda>m. if id_movie m = i
                      then m\<lparr>tickets_available := tickets_available m - n\<rparr> else m) =
   id_movie"
  by (rule ext) simp

lemma ids_delete:
  "map id_movie (filter (\<lambda>m. id_movie m \<noteq> i) ms) = filter (\<lambda>x. x \<noteq> i) (map id_movie ms)"
  by (induction ms) auto

lemma ids_add_movie:
  "(ascending_ids db \<longrightarrow> ascending_ids (snd (add_movie P p db))) \<and>
   (distinct_ids db \<longrightarrow> distinct_ids (snd (add_movie P p db)))"
  using add_movie_result [of P p db]
  by (fastforce simp: ascending_ids_def distinct_ids_def sorted_wrt_append
        dest: next_rowid_above)

lemma ids_update_movie:
  "(ascending_ids db \<longrightarrow> ascending_ids (snd (update_movie P p db))) \<and>
   (distinct_ids db \<longrightarrow> distinct_ids (snd (update_movie P p db)))"
  using update_movie_result [of P p db]
  by (auto simp: ascending_ids_def distinct_ids_def)

lemma ids_delete_movie:
  "(ascending_ids db \<longrightarrow> ascending_ids (snd (delete_movie P p db))) \<and>
   (distinct_ids db \<longrightarrow> distinct_ids (snd (delete_movie P p db)))"
  using delete_movie_result [of P p db]
  by (auto simp: ascending_ids_def distinct_ids_def ids_delete sorted_wrt_filter)

lemma ids_sell_tickets:
  "(ascending_ids db \<longrightarrow> ascending_ids (snd (sell_tickets P e p db))) \<and>
   (distinct_ids db \<longrightarrow> distinct_ids (snd (sell_tickets P e p db)))"
  using sell_tickets_result [of P e p db "fst (sell_tickets P e p db)" "snd (sell_tickets P e p db)"]
  by (auto simp: ascending_ids_def distinct_ids_def)

lemma ids_handle_request:
  "handle_request P e obj db = Inr res \<Longrightarrow>
     (ascending_ids db \<longrightarrow> ascending_ids (snd res)) \<and>
     (distinct_ids db \<longrightarrow> distinct_ids (snd res))"
  by (auto simp: handle_request_def Let_def ids_add_movie ids_update_movie ids_delete_movie
        ids_sell_tickets split: json.splits if_splits)

lemma ascending_client_thread:
  "ascending_ids db \<Longrightarrow> ascending_ids (snd (client_thread P e chunks db))"
  by (auto simp: client_thread_def Let_def split: sum.splits dest: ids_handle_request)

lemma distinct_ids_client_thread:
  "distinct_ids db \<Longrightarrow> distinct_ids (snd (client_thread P e chunks db))"
  by (auto simp: client_thread_def Let_def split: sum.splits dest: ids_handle_request)

lemma ascending_distinct: "ascending_ids db \<Longrightarrow> distinct_ids db"
  by (simp add: ascending_ids_def distinct_ids_def strict_sorted_iff)

section \<open>The connection handler on a falsy request\<close>

text \<open>
  C10. When the request read from the connection is a falsy Python value (the empty
  object, 0, false, null, the empty string, the empty array are such values), the
  handler answers \<open>Invalid or empty request\<close> and leaves the database as it is; the
  dispatcher is not called, although on the empty object it would have answered
  \<open>Unknown action\<close>.
\<close>

theorem falsy_request_rejected:
  "falsy P (recv_json P chunks []) \<Longrightarrow>
     client_thread P e chunks db = (Error ''Invalid or empty request'', db) \<and>
     handle_request P e (JObj []) db = Inr (Error ''Unknown action'', db) \<and>
     falsy P (JObj []) \<and> falsy P (JInt 0) \<and> falsy P (JBool False) \<and> falsy P JNull \<and>
     falsy P (JStr []) \<and> falsy P (JArr [])"
  by (simp add: client_thread_def handle_request_def get_default_def)

theorem falsy_request_rejected_witness:
  "falsy exact_python (recv_json exact_python [''{}'', [CHR 0x0A]] []) \<and>
   client_thread exact_python env0 [''{}'', [CHR 0x0A]] empty_db =
     (Error ''Invalid or empty request'', empty_db)"
proof -
  have h: "falsy exact_python (recv_json exact_python [''{}'', [CHR 0x0A]] [])"
    by (simp add: exact_python_def loads_or_none_def)
  show ?thesis using h falsy_request_rejected [OF h, of env0 empty_db] by simp
qed

section \<open>Adding a movie\<close>

text \<open>
  C3, as stated, fails: a request with a negative \<^verbatim>\<open>ticket_price\<close> is accepted, the
  movie is inserted with that price, and the answer carries no id.
\<close>

theorem add_movie_negative_price_counterexample:
  "add_movie exact_python
     [(''action'', JStr ''add_movie''), (''title'', JStr ''Dune''), (''cinema_room'', JInt 1),
      (''release_date'', JStr ''2025-06-01''), (''end_date'', JStr ''2025-06-30''),
      (''tickets_available'', JInt 50), (''ticket_price'', JInt (- 5))]
     empty_db =
   (Ok ''Movie added'',
    \<lparr>movies = [\<lparr>id_movie = 1, title = ''Dune'', cinema_room = 1,
                 release_date = Some ''2025-06-01'', end_date = Some ''2025-06-30'',
                 tickets_available = 50, ticket_price = Some (- 5)\<rparr>],
     movies_seq = 1, sales = [], sales_seq = 0\<rparr>)"
  by (simp add: add_movie_def movie_params_def bind_movie_def insert_movie_def getitem_def
        get_default_def exact_python_def empty_db_def bind_int_def bind_real_def int64_def
        next_rowid_def)

text \<open>
  C3, amended. \<^verbatim>\<open>add_movie\<close> answers either \<open>Movie added\<close> (the answer does not carry
  the id) or with the exception raised, in which case the store is unchanged. When it
  answers \<open>Movie added\<close>, one row is appended whose id is larger than every id of the
  table. When \<^verbatim>\<open>int()\<close> raises on \<^verbatim>\<open>cinema_room\<close> or on \<^verbatim>\<open>tickets_available\<close>, or
  \<^verbatim>\<open>float()\<close> raises on \<^verbatim>\<open>ticket_price\<close>, or one of them is missing, the answer is an
  error and nothing is inserted.
\<close>

theorem add_movie_fresh_id_or_error:
  "(fst (add_movie P p db) = Ok ''Movie added'' \<or>
      (\<exists>x. add_movie P p db = (Raised x, db))) \<and>
   (fst (add_movie P p db) = Ok ''Movie added'' \<longrightarrow>
      (\<exists>row. movies (snd (add_movie P p db)) = movies db @ [row] \<and>
         (\<forall>m \<in> set (movies db). id_movie m < id_movie row) \<and>
         movies_seq (snd (add_movie P p db)) = id_movie row \<and>
         sales (snd (add_movie P p db)) = sales db)) \<and>
   ((\<exists>x. thenE (getitem p ''cinema_room'') (int_py P) = Inl x) \<or>
    (\<exists>x. thenE (getitem p ''tickets_available'') (int_py P) = Inl x) \<or>
    (\<exists>x. thenE (getitem p ''ticket_price'') (float_py P) = Inl x) \<longrightarrow>
      (\<exists>x. add_movie P p db = (Raised x, db)))"
proof -
  have a: "fst (add_movie P p db) = Ok ''Movie added'' \<or> (\<exists>x. add_movie P p db = (Raised x, db))"
    using add_movie_result [of P p db] by auto
  have b: "\<exists>row. movies (snd (add_movie P p db)) = movies db @ [row] \<and>
         (\<forall>m \<in> set (movies db). id_movie m < id_movie row) \<and>
         movies_seq (snd (add_movie P p db)) = id_movie row \<and>
         sales (snd (add_movie P p db)) = sales db"
    if "fst (add_movie P p db) = Ok ''Movie added''"
    using add_movie_result [of P p db] that by (fastforce dest: next_rowid_above)
  have c: "\<exists>x. add_movie P p db = (Raised x, db)"
    if "(\<exists>x. thenE (getitem p ''cinema_room'') (int_py P) = Inl x) \<or>
        (\<exists>x. thenE (getitem p ''tickets_available'') (int_py P) = Inl x) \<or>
        (\<exists>x. thenE (getitem p ''ticket_price'') (float_py P) = Inl x)"
  proof -
    have "\<not> (\<exists>params. movie_params P p = Inr params)"
      using that unfolding movie_params_Inr by auto
    then obtain x where "movie_params P p = Inl x" by (cases "movie_params P p") auto
    then show ?thesis by (simp add: add_movie_def)
  qed
  from a b c show ?thesis by blast
qed

theorem add_movie_fresh_id_or_error_witness:
  "fst (add_movie exact_python
          [(''title'', JStr ''Dune''), (''cinema_room'', JInt 2),
           (''tickets_available'', JInt 50), (''ticket_price'', JInt 90)] matrix_db) =
     Ok ''Movie added'' \<and>
   (\<exists>row. movies (snd (add_movie exact_python
          [(''title'', JStr ''Dune''), (''cinema_room'', JInt 2),
           (''tickets_available'', JInt 50), (''ticket_price'', JInt 90)] matrix_db)) =
        movies matrix_db @ [row] \<and>
      (\<forall>m \<in> set (movies matrix_db). id_movie m < id_movie row)) \<and>
   (\<exists>x. thenE (getitem [(''title'', JStr ''Dune''), (''cinema_room'', JStr ''two'')] ''cinema_room'')
           (int_py exact_python) = Inl x) \<and>
   (\<exists>x. add_movie exact_python [(''title'', JStr ''Dune''), (''cinema_room'', JStr ''two'')]
           matrix_db = (Raised x, matrix_db))"
proof -
  have h: "fst (add_movie exact_python
          [(''title'', JStr ''Dune''), (''cinema_room'', JInt 2),
           (''tickets_available'', JInt 50), (''ticket_price'', JInt 90)] matrix_db) =
     Ok ''Movie added''"
    by (simp add: add_movie_def movie_params_def bind_movie_def insert_movie_def getitem_def
        get_default_def exact_python_def matrix_db_def bind_int_def bind_real_def int64_def
        next_rowid_def)
  have g: "\<exists>x. thenE (getitem [(''title'', JStr ''Dune''), (''cinema_room'', JStr ''two'')] ''cinema_room'')
           (int_py exact_python) = Inl x"
    by (simp add: getitem_def exact_python_def decimal_def)
  show ?thesis
    using h g
      add_movie_fresh_id_or_error [of exact_python
          "[(''title'', JStr ''Dune''), (''cinema_room'', JInt 2),
           (''tickets_available'', JInt 50), (''ticket_price'', JInt 90)]" matrix_db]
      add_movie_fresh_id_or_error [of exact_python
          "[(''title'', JStr ''Dune''), (''cinema_room'', JStr ''two'')]" matrix_db]
    by blast
qed

section \<open>Counts never below zero\<close>


lemma find_member:
  "find (\<lambda>m. id_movie m = i) ms = Some row \<Longrightarrow> row \<in> set ms \<and> id_movie row = i"
  by (induction ms) (auto split: if_splits)

lemma set_fields_tickets [simp]:
  "tickets_available (set_fields (t0, room, rd, ed, avail, price) t m) = avail"
  by (simp add: set_fields_def)








section \<open>Selling tickets\<close>

lemma sell_tickets_insufficient:
  assumes "thenE (getitem p ''movie_id'') (int_py P) = Inr i" and "int64 i"
    and "getitem p ''customer_name'' = Inr name"
    and "thenE (getitem p ''number_of_tickets'') (int_py P) = Inr n" and "0 < n"
    and "find (\<lambda>m. id_movie m = i) (movies db) = Some row"
    and "tickets_available row < n"
  shows "sell_tickets P e p db =
           (Error (''Not enough tickets (available '' @ str_int (tickets_available row) @ '')''), db)"
  using assms by (simp add: sell_tickets_def sell_transaction_def bind_int_def)

subsection \<open>Sales served by concurrent threads\<close>

lemma sell_tickets_two_steps:
  "sell_tickets P e p db =
     (case sell_check P p db of
        Refused r \<Rightarrow> (r, db)
      | Passed i name n row \<Rightarrow> sell_write P e i name n row db)"
  unfolding sell_tickets_def sell_transaction_def sell_check_def sell_write_def
  by (auto simp: thenE_def bind_int_def split: sum.splits option.splits)

lemma thread_alone:
  "step P e (fst (step P e (Arrived p) db)) (snd (step P e (Arrived p) db)) =
     (Answered (fst (sell_tickets P e p db)), snd (sell_tickets P e p db))"
  by (auto simp: sell_tickets_two_steps split: checked.splits prod.splits)

text \<open>
  C1. Two threads each serve the request
  \<^verbatim>\<open>{"action":"sell","movie_id":1,"customer_name":"Ada","number_of_tickets":60}\<close>
  against a movie with 100 tickets. When both run the check before either writes, both
  pass it: both sales are committed and answered \<open>Tickets sold\<close>, the ledger holds 120
  tickets and the count of the movie is -20. When the first thread finishes before the
  second starts, the second sale is refused with \<open>Not enough tickets (available 40)\<close>.
\<close>

theorem concurrent_sales_oversell:
  "map tickets_available (movies matrix_db) = [100] \<and>
   run_threads exact_python env0 [0, 1, 0, 1]
     [Arrived (sell_request 60), Arrived (sell_request 60)] matrix_db =
   ([Answered (Sold [(''movie_id'', JInt 1), (''title'', JStr ''The Matrix''),
                     (''customer'', JStr ''Ada''), (''tickets'', JInt 60),
                     (''total'', JFloat 7200)]
                 ''server_receipts/receipt_20250601120000_1.txt''),
     Answered (Sold [(''movie_id'', JInt 1), (''title'', JStr ''The Matrix''),
                     (''customer'', JStr ''Ada''), (''tickets'', JInt 60),
                     (''total'', JFloat 7200)]
                 ''server_receipts/receipt_20250601120000_1.txt'')],
    \<lparr>movies = [\<lparr>id_movie = 1, title = ''The Matrix'', cinema_room = 1,
                 release_date = Some ''2025-06-01'', end_date = Some ''2025-06-30'',
                 tickets_available = - 20, ticket_price = Some 120\<rparr>],
     movies_seq = 1,
     sales = [\<lparr>id_sale = 1, movie_id = 1, customer_name = Some ''Ada'',
                number_of_tickets = 60, total = Some 7200,
                sale_time = ''2025-06-01T12:00:00''\<rparr>,
              \<lparr>id_sale = 2, movie_id = 1, customer_name = Some ''Ada'',
                number_of_tickets = 60, total = Some 7200,
                sale_time = ''2025-06-01T12:00:00''\<rparr>],
     sales_seq = 2\<rparr>) \<and>
   fst (run_threads exact_python env0 [0, 0, 1, 1]
          [Arrived (sell_request 60), Arrived (sell_request 60)] matrix_db) ! 1 =
     Answered (Error ''Not enough tickets (available 40)'')"
  by code_simp

subsection \<open>One sale\<close>

text \<open>
  C5. A sale leaves the store as it was, or it does both things: one entry for the
  movie and the number requested is appended to the ledger and the count of that movie
  goes down by that number (which is positive and not above the count read). When the
  transaction raises before the commit, and when the count requested is not positive,
  the movie is absent or the count is too small, the store is unchanged and the answer
  is an error.
\<close>

theorem sale_is_atomic:
  "(snd (sell_tickets P e p db) = db \<or>
      (\<exists>i n sl row.
         movies (snd (sell_tickets P e p db)) =
           map (\<lambda>m. if id_movie m = i
                     then m\<lparr>tickets_available := tickets_available m - n\<rparr> else m)
             (movies db) \<and>
         sales (snd (sell_tickets P e p db)) = sales db @ [sl] \<and>
         movie_id sl = i \<and> number_of_tickets sl = n \<and> 0 < n \<and>
         find (\<lambda>m. id_movie m = i) (movies db) = Some row \<and> n \<le> tickets_available row)) \<and>
   ((\<exists>x. sell_transaction P e p db = Inl x) \<longrightarrow>
      snd (sell_tickets P e p db) = db \<and> status (fst (sell_tickets P e p db)) = ''error'') \<and>
   (thenE (getitem p ''movie_id'') (int_py P) = Inr j \<and>
    thenE (getitem p ''number_of_tickets'') (int_py P) = Inr k \<and>
    (k \<le> 0 \<or> find (\<lambda>m. id_movie m = j) (movies db) = None \<or>
     (\<exists>row. find (\<lambda>m. id_movie m = j) (movies db) = Some row \<and> tickets_available row < k)) \<longrightarrow>
      snd (sell_tickets P e p db) = db \<and> status (fst (sell_tickets P e p db)) = ''error'')"
proof -
  obtain r db' where s: "sell_tickets P e p db = (r, db')"
    by (cases "sell_tickets P e p db") auto
  note res = sell_tickets_result [OF s]
  have a: "snd (sell_tickets P e p db) = db \<or>
      (\<exists>i n sl row.
         movies (snd (sell_tickets P e p db)) =
           map (\<lambda>m. if id_movie m = i
                     then m\<lparr>tickets_available := tickets_available m - n\<rparr> else m)
             (movies db) \<and>
         sales (snd (sell_tickets P e p db)) = sales db @ [sl] \<and>
         movie_id sl = i \<and> number_of_tickets sl = n \<and> 0 < n \<and>
         find (\<lambda>m. id_movie m = i) (movies db) = Some row \<and> n \<le> tickets_available row)"
    using res unfolding s snd_conv by blast
  have b: "snd (sell_tickets P e p db) = db \<and> status (fst (sell_tickets P e p db)) = ''error''"
    if "\<exists>x. sell_transaction P e p db = Inl x"
    using that by (auto simp: sell_tickets_def)
  have c: "snd (sell_tickets P e p db) = db \<and> status (fst (sell_tickets P e p db)) = ''error''"
    if "thenE (getitem p ''movie_id'') (int_py P) = Inr j \<and>
        thenE (getitem p ''number_of_tickets'') (int_py P) = Inr k \<and>
        (k \<le> 0 \<or> find (\<lambda>m. id_movie m = j) (movies db) = None \<or>
         (\<exists>row. find (\<lambda>m. id_movie m = j) (movies db) = Some row \<and> tickets_available row < k))"
    using res that unfolding s by auto
  from a b c show ?thesis by blast
qed

theorem sale_is_atomic_witness:
  "sell_transaction exact_python env0
     [(''movie_id'', JInt 1), (''customer_name'', JArr []), (''number_of_tickets'', JInt 2)]
     matrix_db = Inl BindingError \<and>
   snd (sell_tickets exact_python env0
     [(''movie_id'', JInt 1), (''customer_name'', JArr []), (''number_of_tickets'', JInt 2)]
     matrix_db) = matrix_db \<and>
   status (fst (sell_tickets exact_python env0
     [(''movie_id'', JInt 1), (''customer_name'', JArr []), (''number_of_tickets'', JInt 2)]
     matrix_db)) = ''error'' \<and>
   find (\<lambda>m. id_movie m = 7) (movies matrix_db) = None \<and>
   snd (sell_tickets exact_python env0
     [(''movie_id'', JInt 7), (''customer_name'', JStr ''Ada''), (''number_of_tickets'', JInt 2)]
     matrix_db) = matrix_db"
proof -
  have h: "sell_transaction exact_python env0
     [(''movie_id'', JInt 1), (''customer_name'', JArr []), (''number_of_tickets'', JInt 2)]
     matrix_db = Inl BindingError"
    by code_simp
  have g: "thenE (getitem [(''movie_id'', JInt 7), (''customer_name'', JStr ''Ada''),
                           (''number_of_tickets'', JInt 2)] ''movie_id'') (int_py exact_python) = Inr 7"
    "thenE (getitem [(''movie_id'', JInt 7), (''customer_name'', JStr ''Ada''),
                           (''number_of_tickets'', JInt 2)] ''number_of_tickets'') (int_py exact_python) = Inr 2"
    "find (\<lambda>m. id_movie m = 7) (movies matrix_db) = None"
    by (simp_all add: getitem_def matrix_db_def)
  show ?thesis
    using h g
      sale_is_atomic [where P = exact_python and e = env0 and db = matrix_db and
        p = "[(''movie_id'', JInt 1), (''customer_name'', JArr []), (''number_of_tickets'', JInt 2)]"]
      sale_is_atomic [where P = exact_python and e = env0 and db = matrix_db and j = 7 and k = 2 and
        p = "[(''movie_id'', JInt 7), (''customer_name'', JStr ''Ada''), (''number_of_tickets'', JInt 2)]"]
    by blast
qed

text \<open>
  C6. A sale request whose \<^verbatim>\<open>number_of_tickets\<close> reads as an integer that is not
  positive is answered with an error and leaves both tables as they are; when
  \<^verbatim>\<open>movie_id\<close> and \<^verbatim>\<open>customer_name\<close> are readable too, the message is
  \<open>Requested tickets must be > 0\<close>. The check is made before the database is opened.
\<close>

theorem nonpositive_count_rejected:
  assumes "thenE (getitem p ''number_of_tickets'') (int_py P) = Inr n" and "n \<le> 0"
  shows "status (fst (sell_tickets P e p db)) = ''error'' \<and>
         snd (sell_tickets P e p db) = db \<and>
         ((\<exists>i. thenE (getitem p ''movie_id'') (int_py P) = Inr i) \<and>
          (\<exists>name. getitem p ''customer_name'' = Inr name) \<longrightarrow>
            sell_transaction P e p db = Inr (Rejected ''Requested tickets must be > 0'') \<and>
            sell_tickets P e p db = (Error ''Requested tickets must be > 0'', db))"
proof -
  obtain r db' where s: "sell_tickets P e p db = (r, db')"
    by (cases "sell_tickets P e p db") auto
  from sell_tickets_result [OF s] assms
  have a: "status (fst (sell_tickets P e p db)) = ''error'' \<and> snd (sell_tickets P e p db) = db"
    unfolding s by auto
  have b: "sell_transaction P e p db = Inr (Rejected ''Requested tickets must be > 0'') \<and>
           sell_tickets P e p db = (Error ''Requested tickets must be > 0'', db)"
    if "(\<exists>i. thenE (getitem p ''movie_id'') (int_py P) = Inr i) \<and>
        (\<exists>name. getitem p ''customer_name'' = Inr name)"
    using that assms by (auto simp: sell_tickets_def sell_transaction_def)
  from a b show ?thesis by blast
qed

theorem nonpositive_count_rejected_witness:
  "thenE (getitem (sell_request 0) ''number_of_tickets'') (int_py exact_python) = Inr 0 \<and>
   sell_tickets exact_python env0 (sell_request 0) matrix_db =
     (Error ''Requested tickets must be > 0'', matrix_db)"
proof -
  have a: "thenE (getitem (sell_request 0) ''number_of_tickets'') (int_py exact_python) = Inr 0"
    by (simp add: sell_request_def getitem_def)
  have b: "(0::int) \<le> 0" by simp
  have c: "\<exists>i. thenE (getitem (sell_request 0) ''movie_id'') (int_py exact_python) = Inr i"
    "\<exists>name. getitem (sell_request 0 :: rat payload) ''customer_name'' = Inr name"
    by (simp_all add: sell_request_def getitem_def)
  show ?thesis
    using a c nonpositive_count_rejected [OF a b, of env0 matrix_db] by blast
qed

subsection \<open>The count in the message\<close>

lemma digit_char_value:
  assumes "d < 10"
  shows "digit_char d \<in> set ''0123456789'' \<and> (of_char (digit_char d) :: nat) = 48 + d"
proof -
  from assms have "d = 0 \<or> d = 1 \<or> d = 2 \<or> d = 3 \<or> d = 4 \<or> d = 5 \<or> d = 6 \<or> d = 7 \<or>
      d = 8 \<or> d = 9"
    by arith
  then show ?thesis by (elim disjE) (simp_all add: digit_char_def)
qed


lemma set_snoc_subset: "set xs \<subseteq> D \<Longrightarrow> y \<in> D \<Longrightarrow> set (xs @ [y]) \<subseteq> D"
  by auto

lemma set_cons_subset: "set (y # xs) \<subseteq> D \<Longrightarrow> y \<in> D"
  by auto

lemma set_single_subset: "y \<in> D \<Longrightarrow> set [y] \<subseteq> D"
  by auto

lemma str_nat_digits:
  "str_nat n \<noteq> [] \<and> set (str_nat n) \<subseteq> set ''0123456789'' \<and>
   fold (\<lambda>c a. 10 * a + int (of_char c) - 48) (str_nat n) 0 = int n"
proof (induction n rule: str_nat.induct)
  case (1 n)
  show ?case
  proof (cases "n < 10")
    case True
    then have s: "str_nat n = [digit_char n]" by (subst str_nat.simps) (simp del: str_nat.simps)
    have d: "digit_char n \<in> set ''0123456789''" "(of_char (digit_char n) :: nat) = 48 + n"
      using digit_char_value [OF True] by blast+
    have "fold (\<lambda>c a. 10 * a + int (of_char c) - 48) (str_nat n) 0 = int n"
      unfolding s by (simp add: d(2))
    moreover have "str_nat n \<noteq> []" unfolding s by blast
    moreover have "set (str_nat n) \<subseteq> set ''0123456789''"
      unfolding s using d(1) by (rule set_single_subset)
    ultimately show ?thesis by blast
  next
    case False
    then have s: "str_nat n = str_nat (n div 10) @ [digit_char (n mod 10)]"
      by (subst str_nat.simps) (simp del: str_nat.simps)
    have m: "n mod 10 < 10" by simp
    have ih: "str_nat (n div 10) \<noteq> []" "set (str_nat (n div 10)) \<subseteq> set ''0123456789''"
      "fold (\<lambda>c a. 10 * a + int (of_char c) - 48) (str_nat (n div 10)) 0 = int (n div 10)"
      using "1" [OF False] by blast+
    have d: "digit_char (n mod 10) \<in> set ''0123456789''"
      "(of_char (digit_char (n mod 10)) :: nat) = 48 + n mod 10"
      using digit_char_value [OF m] by blast+
    have "fold (\<lambda>c a. 10 * a + int (of_char c) - 48) (str_nat n) 0 =
            10 * int (n div 10) + int (48 + n mod 10) - 48"
      unfolding s fold_append comp_apply ih(3) by (simp add: d(2) del: str_nat.simps)
    also have "\<dots> = int n" by presburger
    finally have f: "fold (\<lambda>c a. 10 * a + int (of_char c) - 48) (str_nat n) 0 = int n" .
    have "str_nat n \<noteq> []" unfolding s by blast
    moreover have "set (str_nat n) \<subseteq> set ''0123456789''"
      unfolding s using ih(2) d(1) by (rule set_snoc_subset)
    ultimately show ?thesis using f by blast
  qed
qed

lemma decimal_str_nat: "decimal (str_nat n) = Some (int n)"
proof -
  have a: "str_nat n \<noteq> []"
    and b: "\<forall>c \<in> set (str_nat n). c \<in> set ''0123456789''"
    and c: "fold (\<lambda>c a. 10 * a + int (of_char c) - 48) (str_nat n) 0 = int n"
    using str_nat_digits [of n] by blast+
  from a b have cond: "str_nat n \<noteq> [] \<and> (\<forall>c \<in> set (str_nat n). c \<in> set ''0123456789'')"
    by blast
  show ?thesis unfolding decimal_def by (subst if_P [OF cond]) (simp only: c)
qed

lemma read_int_str_int: "read_int (str_int i) = Some i"
proof (cases "i < 0")
  case True
  then show ?thesis
    by (simp add: read_int_def str_int_def decimal_str_nat del: str_nat.simps)
next
  case False
  obtain c cs where s: "str_nat (nat i) = c # cs"
    using str_nat_digits [of "nat i"] by (cases "str_nat (nat i)") blast+
  have "set (c # cs) \<subseteq> set ''0123456789''"
    using str_nat_digits [of "nat i"] unfolding s by blast
  then have "c \<in> set ''0123456789''" by (rule set_cons_subset)
  moreover have "CHR ''-'' \<notin> set ''0123456789''" by simp
  ultimately have "c \<noteq> CHR ''-''" by blast
  with False decimal_str_nat [of "nat i"] show ?thesis
    unfolding read_int_def str_int_def s by simp
qed

text \<open>
  C7, as stated, fails. The count of a movie can be negative (\<^verbatim>\<open>update_movie\<close> stores
  the count of the request): on a count of -5 a request for -3 tickets exceeds the
  count, and it is answered by the check of line 153, not by the one of line 164.
\<close>

theorem insufficient_inventory_counterexample:
  "map id_movie (movies (snd (update_movie exact_python
       (admin_request 1 ''The Matrix'' (- 5)) matrix_db))) = [1] \<and>
   map tickets_available (movies (snd (update_movie exact_python
       (admin_request 1 ''The Matrix'' (- 5)) matrix_db))) = [- 5] \<and>
   thenE (getitem (sell_request (- 3)) ''number_of_tickets'') (int_py exact_python) =
     Inr (- 3) \<and>
   (- 5 :: int) < - 3 \<and>
   sell_tickets exact_python env0 (sell_request (- 3))
     (snd (update_movie exact_python (admin_request 1 ''The Matrix'' (- 5)) matrix_db)) =
   (Error ''Requested tickets must be > 0'',
    snd (update_movie exact_python (admin_request 1 ''The Matrix'' (- 5)) matrix_db))"
  by code_simp

text \<open>
  C7, amended. A sale request for an existing movie, for a positive number of tickets
  that exceeds the count of the movie, is answered with the error
  \<open>Not enough tickets (available N)\<close> and leaves the store unchanged. \<open>N\<close> is the decimal
  text of the count: read back as a number, it is the count.
\<close>

theorem insufficient_inventory_reported:
  assumes "thenE (getitem p ''movie_id'') (int_py P) = Inr i" and "int64 i"
    and "getitem p ''customer_name'' = Inr name"
    and "thenE (getitem p ''number_of_tickets'') (int_py P) = Inr n"
    and "find (\<lambda>m. id_movie m = i) (movies db) = Some row"
    and "tickets_available row < n"
    and "0 < n"
  shows "sell_tickets P e p db =
           (Error (''Not enough tickets (available '' @ str_int (tickets_available row) @ '')''),
            db) \<and>
         status (fst (sell_tickets P e p db)) = ''error'' \<and>
         read_int (str_int (tickets_available row)) = Some (tickets_available row)"
proof -
  from assms have "sell_tickets P e p db =
           (Error (''Not enough tickets (available '' @ str_int (tickets_available row) @ '')''),
            db)"
    by (intro sell_tickets_insufficient)
  then show ?thesis by (simp add: read_int_str_int del: str_nat.simps)
qed

theorem insufficient_inventory_reported_witness:
  "find (\<lambda>m. id_movie m = 1) (movies matrix_db) = Some (hd (movies matrix_db)) \<and>
   tickets_available (hd (movies matrix_db)) = 100 \<and>
   sell_tickets exact_python env0 (sell_request 999999) matrix_db =
     (Error ''Not enough tickets (available 100)'', matrix_db) \<and>
   read_int ''100'' = Some 100"
proof -
  have h: "thenE (getitem (sell_request 999999) ''movie_id'') (int_py exact_python) = Inr 1"
    "int64 1" "getitem (sell_request 999999 :: rat payload) ''customer_name'' = Inr (JStr ''Ada'')"
    "thenE (getitem (sell_request 999999) ''number_of_tickets'') (int_py exact_python) = Inr 999999"
    "find (\<lambda>m. id_movie m = 1) (movies matrix_db) = Some (hd (movies matrix_db))"
    "tickets_available (hd (movies matrix_db)) < 999999"
    "(0::int) < 999999"
    by (simp_all add: sell_request_def getitem_def int64_def matrix_db_def)
  have t: "tickets_available (hd (movies matrix_db)) = 100"
    "str_int (tickets_available (hd (movies matrix_db))) = ''100''"
    by (simp_all add: matrix_db_def str_int_def digit_char_def)
  show ?thesis
    using h(5) t insufficient_inventory_reported [OF h, of env0] by simp
qed

section \<open>Unknown and known movie ids\<close>

lemma update_movie_absent:
  assumes "\<forall>m \<in> set (movies db). id_movie m \<noteq> i"
    and "thenE (getitem p ''id'') (int_py P) = Inr i"
  shows "status (fst (update_movie P p db)) = ''error'' \<and> snd (update_movie P p db) = db"
  using update_movie_result [of P p db] assms by auto

lemma update_movie_absent_message:
  assumes "\<forall>m \<in> set (movies db). id_movie m \<noteq> i"
    and "thenE (getitem p ''id'') (int_py P) = Inr i" and "int64 i"
    and "movie_params P p = Inr params" and "bind_movie P params = Inr row"
  shows "update_movie P p db = (Error ''Movie id not found'', db)"
proof -
  from assms(1) have "filter (\<lambda>m. id_movie m = i) (movies db) = []"
    by (auto simp: filter_empty_conv)
  with assms(2-) show ?thesis
    by (simp add: update_movie_def bind_int_def update_rows_def)
qed

lemma update_movie_present:
  assumes "\<exists>m \<in> set (movies db). id_movie m = j"
    and "thenE (getitem q ''id'') (int_py P) = Inr j" and "int64 j"
    and "movie_params P q = Inr params"
    and "bind_movie P params = Inr (Some t, room, rd, ed, avail, price)"
  shows "update_movie P q db =
           (Ok ''Movie updated'',
            db\<lparr>movies := map (\<lambda>m. if id_movie m = j
                                   then m\<lparr>title := t, cinema_room := room, release_date := rd,
                                          end_date := ed, tickets_available := avail,
                                          ticket_price := price\<rparr>
                                   else m) (movies db)\<rparr>)"
proof -
  from assms(1) have "filter (\<lambda>m. id_movie m = j) (movies db) \<noteq> []"
    by (auto simp: filter_empty_conv)
  with assms(2-) show ?thesis
    by (simp add: update_movie_def bind_int_def update_rows_def set_fields_def)
qed

lemma update_movie_all_or_nothing:
  "status (fst (update_movie P p db)) = ''error'' \<Longrightarrow> snd (update_movie P p db) = db"
  using update_movie_result [of P p db] by auto

lemma delete_movie_absent:
  assumes "\<forall>m \<in> set (movies db). id_movie m \<noteq> i"
    and "thenE (getitem p ''id'') (int_py P) = Inr i"
  shows "status (fst (delete_movie P p db)) = ''error'' \<and> snd (delete_movie P p db) = db \<and>
         (int64 i \<longrightarrow> delete_movie P p db = (Error ''Movie id not found'', db))"
proof -
  from assms(1) have f: "filter (\<lambda>m. id_movie m = i) (movies db) = []"
    "filter (\<lambda>m. id_movie m \<noteq> i) (movies db) = movies db"
    by (auto simp: filter_empty_conv filter_id_conv)
  show ?thesis
    using assms(2) f by (simp add: delete_movie_def bind_int_def delete_rows_def)
qed

lemma delete_movie_present:
  assumes "\<exists>m \<in> set (movies db). id_movie m = j"
    and "thenE (getitem q ''id'') (int_py P) = Inr j" and "int64 j"
  shows "delete_movie P q db =
           (Ok ''Movie deleted'', db\<lparr>movies := filter (\<lambda>m. id_movie m \<noteq> j) (movies db)\<rparr>)"
proof -
  from assms(1) have "filter (\<lambda>m. id_movie m = j) (movies db) \<noteq> []"
    by (auto simp: filter_empty_conv)
  with assms(2,3) show ?thesis
    by (simp add: delete_movie_def bind_int_def delete_rows_def)
qed

lemma sell_tickets_absent:
  assumes "\<forall>m \<in> set (movies db). id_movie m \<noteq> i"
    and "thenE (getitem p ''movie_id'') (int_py P) = Inr i"
  shows "status (fst (sell_tickets P e p db)) = ''error'' \<and> snd (sell_tickets P e p db) = db"
proof -
  obtain r db' where s: "sell_tickets P e p db = (r, db')"
    by (cases "sell_tickets P e p db") auto
  from sell_tickets_result [OF s] assms show ?thesis
    unfolding s by (auto dest: find_member)
qed

lemma sell_tickets_absent_message:
  assumes "\<forall>m \<in> set (movies db). id_movie m \<noteq> i"
    and "thenE (getitem p ''movie_id'') (int_py P) = Inr i" and "int64 i"
    and "getitem p ''customer_name'' = Inr name"
    and "thenE (getitem p ''number_of_tickets'') (int_py P) = Inr n" and "0 < n"
  shows "sell_tickets P e p db = (Error ''Movie not found'', db)"
proof -
  from assms(1) have "find (\<lambda>m. id_movie m = i) (movies db) = None"
    by (auto simp: find_None_iff)
  with assms(2-) show ?thesis
    by (simp add: sell_tickets_def sell_transaction_def bind_int_def)
qed

text \<open>
  C8. When no movie has the id \<open>i\<close>, \<^verbatim>\<open>update_movie\<close>, \<^verbatim>\<open>delete_movie\<close> and
  \<^verbatim>\<open>sell_tickets\<close> on \<open>i\<close> answer with an error and leave the store unchanged; the
  message is \<open>Movie id not found\<close> (\<open>Movie not found\<close> for a sale) when the other fields
  of the request are readable. When a movie has the id \<open>j\<close>, \<^verbatim>\<open>delete_movie\<close> removes
  the rows with that id and no other, and \<^verbatim>\<open>update_movie\<close> sets the six fields of that
  movie to the values of the request and touches no other row; an update that answers
  with an error has changed nothing.
\<close>

theorem unknown_id_not_found:
  "((\<forall>m \<in> set (movies db). id_movie m \<noteq> i) \<and>
    thenE (getitem p ''id'') (int_py P) = Inr i \<longrightarrow>
      status (fst (update_movie P p db)) = ''error'' \<and> snd (update_movie P p db) = db \<and>
      status (fst (delete_movie P p db)) = ''error'' \<and> snd (delete_movie P p db) = db \<and>
      (int64 i \<longrightarrow> delete_movie P p db = (Error ''Movie id not found'', db)) \<and>
      (int64 i \<and> movie_params P p = Inr params \<and> bind_movie P params = Inr row \<longrightarrow>
         update_movie P p db = (Error ''Movie id not found'', db))) \<and>
   ((\<forall>m \<in> set (movies db). id_movie m \<noteq> i) \<and>
    thenE (getitem p ''movie_id'') (int_py P) = Inr i \<longrightarrow>
      status (fst (sell_tickets P e p db)) = ''error'' \<and> snd (sell_tickets P e p db) = db \<and>
      (int64 i \<and> getitem p ''customer_name'' = Inr name \<and>
       thenE (getitem p ''number_of_tickets'') (int_py P) = Inr n \<and> 0 < n \<longrightarrow>
         sell_tickets P e p db = (Error ''Movie not found'', db))) \<and>
   ((\<exists>m \<in> set (movies db). id_movie m = j) \<and>
    thenE (getitem q ''id'') (int_py P) = Inr j \<and> int64 j \<longrightarrow>
      delete_movie P q db =
        (Ok ''Movie deleted'', db\<lparr>movies := filter (\<lambda>m. id_movie m \<noteq> j) (movies db)\<rparr>) \<and>
      (movie_params P q = Inr qparams \<and>
       bind_movie P qparams = Inr (Some t, room, rd, ed, avail, price) \<longrightarrow>
         update_movie P q db =
           (Ok ''Movie updated'',
            db\<lparr>movies := map (\<lambda>m. if id_movie m = j
                                   then m\<lparr>title := t, cinema_room := room, release_date := rd,
                                          end_date := ed, tickets_available := avail,
                                          ticket_price := price\<rparr>
                                   else m) (movies db)\<rparr>))) \<and>
   (status (fst (update_movie P q db)) = ''error'' \<longrightarrow> snd (update_movie P q db) = db)"
  using update_movie_absent [of db i p P] update_movie_absent_message [of db i p P params row]
    delete_movie_absent [of db i p P] sell_tickets_absent [of db i p P e]
    sell_tickets_absent_message [of db i p P name n e]
    delete_movie_present [of db j q P]
    update_movie_present [of db j q P qparams t room rd ed avail price]
    update_movie_all_or_nothing [of P q db]
  by blast

theorem unknown_id_not_found_witness:
  "thenE (getitem (admin_request 99 ''Dune'' 50) ''id'') (int_py exact_python) = Inr 99 \<and>
   update_movie exact_python (admin_request 99 ''Dune'' 50) matrix_db =
     (Error ''Movie id not found'', matrix_db) \<and>
   delete_movie exact_python (admin_request 99 ''Dune'' 50) matrix_db =
     (Error ''Movie id not found'', matrix_db) \<and>
   sell_tickets exact_python env0
     [(''movie_id'', JInt 99), (''customer_name'', JStr ''Ada''), (''number_of_tickets'', JInt 2)]
     matrix_db = (Error ''Movie not found'', matrix_db) \<and>
   delete_movie exact_python (admin_request 1 ''Dune'' 50) matrix_db =
     (Ok ''Movie deleted'', matrix_db\<lparr>movies := []\<rparr>) \<and>
   map title (movies (snd (update_movie exact_python (admin_request 1 ''Dune'' 50) matrix_db))) =
     [''Dune'']"
proof -
  have absent: "\<forall>m \<in> set (movies matrix_db). id_movie m \<noteq> 99"
    and present: "\<exists>m \<in> set (movies matrix_db). id_movie m = 1"
    by (simp_all add: matrix_db_def)
  have p: "thenE (getitem (admin_request 99 ''Dune'' 50) ''id'') (int_py exact_python) = Inr 99"
    "int64 99"
    "movie_params exact_python (admin_request 99 ''Dune'' 50) =
       Inr (JStr ''Dune'', 2, JStr ''2025-07-01'', JStr ''2025-07-31'', 50, 90)"
    "bind_movie exact_python (JStr ''Dune'', 2, JStr ''2025-07-01'', JStr ''2025-07-31'', 50, 90) =
       Inr (Some ''Dune'', 2, Some ''2025-07-01'', Some ''2025-07-31'', 50, Some 90)"
    by (simp_all add: admin_request_def getitem_def get_default_def int64_def movie_params_def
          bind_movie_def bind_int_def bind_real_def exact_python_def)
  have s: "thenE (getitem [(''movie_id'', JInt 99), (''customer_name'', JStr ''Ada''),
                          (''number_of_tickets'', JInt 2)] ''movie_id'') (int_py exact_python) = Inr 99"
    "getitem [(''movie_id'', JInt 99), (''customer_name'', JStr ''Ada''),
              (''number_of_tickets'', JInt (2::int))] ''customer_name'' = Inr (JStr ''Ada'' :: rat json)"
    "thenE (getitem [(''movie_id'', JInt 99), (''customer_name'', JStr ''Ada''),
                          (''number_of_tickets'', JInt 2)] ''number_of_tickets'') (int_py exact_python) = Inr 2"
    by (simp_all add: getitem_def)
  have q: "thenE (getitem (admin_request 1 ''Dune'' 50) ''id'') (int_py exact_python) = Inr 1"
    "int64 1"
    "movie_params exact_python (admin_request 1 ''Dune'' 50) =
       Inr (JStr ''Dune'', 2, JStr ''2025-07-01'', JStr ''2025-07-31'', 50, 90)"
    by (simp_all add: admin_request_def getitem_def get_default_def int64_def movie_params_def
          exact_python_def)
  have f: "filter (\<lambda>m. id_movie m \<noteq> 1) (movies matrix_db) = []"
    by (simp add: matrix_db_def)
  note u = unknown_id_not_found [where P = exact_python and db = matrix_db and i = 99
      and p = "admin_request 99 ''Dune'' 50" and q = "admin_request 1 ''Dune'' 50" and j = 1
      and params = "(JStr ''Dune'', 2, JStr ''2025-07-01'', JStr ''2025-07-31'', 50, 90)"
      and row = "(Some ''Dune'', 2, Some ''2025-07-01'', Some ''2025-07-31'', 50, Some 90)"
      and qparams = "(JStr ''Dune'', 2, JStr ''2025-07-01'', JStr ''2025-07-31'', 50, 90)"
      and t = "''Dune''" and room = 2 and rd = "Some ''2025-07-01''" and ed = "Some ''2025-07-31''"
      and avail = 50 and price = "Some 90"]
  note v = unknown_id_not_found [where P = exact_python and db = matrix_db and i = 99 and e = env0
      and p = "[(''movie_id'', JInt 99), (''customer_name'', JStr ''Ada''),
                (''number_of_tickets'', JInt 2)]" and name = "JStr ''Ada''" and n = 2]
  have 1: "update_movie exact_python (admin_request 99 ''Dune'' 50) matrix_db =
     (Error ''Movie id not found'', matrix_db)"
    and 2: "delete_movie exact_python (admin_request 99 ''Dune'' 50) matrix_db =
     (Error ''Movie id not found'', matrix_db)"
    using u absent p by blast+
  have 3: "sell_tickets exact_python env0
     [(''movie_id'', JInt 99), (''customer_name'', JStr ''Ada''), (''number_of_tickets'', JInt 2)]
     matrix_db = (Error ''Movie not found'', matrix_db)"
    using v absent s p(2) by simp
  have 4: "delete_movie exact_python (admin_request 1 ''Dune'' 50) matrix_db =
     (Ok ''Movie deleted'', matrix_db\<lparr>movies := []\<rparr>)"
    using u present q f by simp
  have 5: "update_movie exact_python (admin_request 1 ''Dune'' 50) matrix_db =
           (Ok ''Movie updated'',
            matrix_db\<lparr>movies := map (\<lambda>m. if id_movie m = 1
                                   then m\<lparr>title := ''Dune'', cinema_room := 2,
                                          release_date := Some ''2025-07-01'',
                                          end_date := Some ''2025-07-31'', tickets_available := 50,
                                          ticket_price := Some 90\<rparr>
                                   else m) (movies matrix_db)\<rparr>)"
    using u present q p(4) by simp
  have 6: "map title (movies (snd (update_movie exact_python (admin_request 1 ''Dune'' 50) matrix_db))) =
     [''Dune'']"
    unfolding 5 by (simp add: matrix_db_def)
  from p(1) 1 2 3 4 6 show ?thesis by blast
qed

section \<open>The catalog: listing, and the round trip through it\<close>

lemma movie_fields_params:
  assumes "movie_fields P p t room rd ed avail x"
  shows "movie_params P p = Inr (JStr t, room, JStr rd, JStr ed, avail, x)"
    and "bind_movie P (JStr t, room, JStr rd, JStr ed, avail, x) =
           Inr (Some t, room, Some rd, Some ed, avail, bind_real P x)"
  using assms
  by (auto simp: movie_fields_def movie_params_def getitem_def get_default_def bind_movie_def
        bind_int_def split: option.splits)

lemma map_other_ids:
  "\<forall>m \<in> set ms. id_movie m \<noteq> i \<Longrightarrow> map (\<lambda>m. if id_movie m = i then f m else m) ms = ms"
  by (induction ms) auto

lemma filter_other_ids:
  "\<forall>m \<in> set ms. id_movie m \<noteq> i \<Longrightarrow> filter (\<lambda>m. id_movie m \<noteq> i) ms = ms"
  by (induction ms) auto

lemma ascending_serve_all:
  "ascending_ids db \<Longrightarrow> ascending_ids (serve_all P conns db)"
  by (induction conns arbitrary: db) (simp_all add: ascending_client_thread)

lemma movie_dict_id [simp]: "dict_id (movie_dict m) = Some (id_movie m)"
  by (simp add: dict_id_def movie_dict_def)

lemma movie_dict_keys [simp]: "map fst (movie_dict m) = movie_keys"
  by (simp add: movie_dict_def movie_keys_def)

text \<open>
  C9. A movie is added with fields of the protocol's types: the listing is then the old
  listing followed by one dict with the new id and exactly the values of the request
  (the price as \<^verbatim>\<open>float()\<close> read it, null when that is NaN). An update of that id with
  other such fields changes that dict to the new values and no other dict. After
  deleting that id the listing is the old listing again. A \<^verbatim>\<open>list_movies\<close> request
  leaves the store as it is, so that a second one gets the same answer.
\<close>

theorem catalog_round_trip:
  fixes P :: "'f python" and db db1 db2 db3 :: "'f db" and p q r :: "'f payload"
  defines "db1 \<equiv> snd (add_movie P p db)"
    and "db2 \<equiv> snd (update_movie P q (snd (add_movie P p db)))"
    and "db3 \<equiv> snd (delete_movie P r (snd (update_movie P q (snd (add_movie P p db)))))"
  assumes old: "list_movies db = Movies old"
    and p: "movie_fields P p t room rd ed avail x"
    and i: "next_rowid (movies_seq db) (map id_movie (movies db)) = Inr i"
    and q: "movie_fields P q t' room' rd' ed' avail' x'" "map_of q ''id'' = Some (JInt i)"
    and r: "map_of r ''id'' = Some (JInt i)"
  shows "fst (add_movie P p db) = Ok ''Movie added'' \<and>
         list_movies db1 =
           Movies (old @
                   [[(''id'', JInt i), (''title'', JStr t), (''cinema_room'', JInt room),
                     (''release_date'', JStr rd), (''end_date'', JStr ed),
                     (''tickets_available'', JInt avail),
                     (''ticket_price'', if float_is_nan P x then JNull else JFloat x)]]) \<and>
         fst (update_movie P q db1) = Ok ''Movie updated'' \<and>
         list_movies db2 =
           Movies (old @
                   [[(''id'', JInt i), (''title'', JStr t'), (''cinema_room'', JInt room'),
                     (''release_date'', JStr rd'), (''end_date'', JStr ed'),
                     (''tickets_available'', JInt avail'),
                     (''ticket_price'', if float_is_nan P x' then JNull else JFloat x')]]) \<and>
         fst (delete_movie P r db2) = Ok ''Movie deleted'' \<and>
         list_movies db3 = Movies old \<and>
         (map_of kvs ''action'' = Some (JStr ''list_movies'') \<longrightarrow>
            handle_request P e (JObj kvs) s = Inr (list_movies s, s))"
proof -
  let ?new = "\<lparr>id_movie = i, title = t, cinema_room = room,
                release_date = Some rd, end_date = Some ed, tickets_available = avail,
                ticket_price = bind_real P x\<rparr>"
  let ?upd = "\<lparr>id_movie = i, title = t', cinema_room = room',
                release_date = Some rd', end_date = Some ed', tickets_available = avail',
                ticket_price = bind_real P x'\<rparr>"
  have o: "old = map movie_dict (movies db)"
    using old by (simp add: list_movies_def)
  have other: "\<forall>m \<in> set (movies db). id_movie m \<noteq> i"
    using next_rowid_above [OF i] by fastforce
  have i64: "int64 i" using i by (rule next_rowid_int64)
  have idq: "thenE (getitem q ''id'') (int_py P) = Inr i"
    and idr: "thenE (getitem r ''id'') (int_py P) = Inr i"
    using q(2) r by (simp_all add: getitem_def)
  have a: "add_movie P p db = (Ok ''Movie added'', db\<lparr>movies := movies db @ [?new], movies_seq := i\<rparr>)"
    using movie_fields_params [OF p] i by (simp add: add_movie_def insert_movie_def)
  then have m1: "movies db1 = movies db @ [?new]" by (simp add: db1_def)
  have "\<exists>m \<in> set (movies db1). id_movie m = i" unfolding m1 by simp
  from update_movie_present [OF this idq i64 movie_fields_params [OF q(1)]]
  have u: "update_movie P q db1 =
           (Ok ''Movie updated'',
            db1\<lparr>movies := map (\<lambda>m. if id_movie m = i
                                   then m\<lparr>title := t', cinema_room := room', release_date := Some rd',
                                          end_date := Some ed', tickets_available := avail',
                                          ticket_price := bind_real P x'\<rparr>
                                   else m) (movies db1)\<rparr>)" .
  have m2: "movies db2 = movies db @ [?upd]"
    using u other unfolding db2_def db1_def [symmetric] by (simp add: m1 map_other_ids)
  have "\<exists>m \<in> set (movies db2). id_movie m = i" unfolding m2 by simp
  from delete_movie_present [OF this idr i64]
  have d: "delete_movie P r db2 =
             (Ok ''Movie deleted'', db2\<lparr>movies := filter (\<lambda>m. id_movie m \<noteq> i) (movies db2)\<rparr>)" .
  have m3: "movies db3 = movies db"
    using d other unfolding db3_def db2_def [symmetric] by (simp add: m2 filter_other_ids)
  have l: "handle_request P e (JObj kvs) s = Inr (list_movies s, s)"
    if "map_of kvs ''action'' = Some (JStr ''list_movies'')"
    using that by (simp add: handle_request_def get_default_def)
  have n: "movie_dict ?new =
             [(''id'', JInt i), (''title'', JStr t), (''cinema_room'', JInt room),
              (''release_date'', JStr rd), (''end_date'', JStr ed),
              (''tickets_available'', JInt avail),
              (''ticket_price'', if float_is_nan P x then JNull else JFloat x)]"
    and n': "movie_dict ?upd =
             [(''id'', JInt i), (''title'', JStr t'), (''cinema_room'', JInt room'),
              (''release_date'', JStr rd'), (''end_date'', JStr ed'),
              (''tickets_available'', JInt avail'),
              (''ticket_price'', if float_is_nan P x' then JNull else JFloat x')]"
    by (simp_all add: movie_dict_def null_or_def bind_real_def)
  have l1: "list_movies db1 = Movies (old @ [movie_dict ?new])"
    and l2: "list_movies db2 = Movies (old @ [movie_dict ?upd])"
    and l3: "list_movies db3 = Movies old"
    by (simp_all add: list_movies_def m1 m2 m3 o)
  show ?thesis
    using a u d l unfolding l1 l2 l3 n n' db1_def [symmetric] db2_def [symmetric] by simp
qed

theorem catalog_round_trip_witness:
  "list_movies matrix_db =
     Movies [[(''id'', JInt 1), (''title'', JStr ''The Matrix''), (''cinema_room'', JInt 1),
              (''release_date'', JStr ''2025-06-01''), (''end_date'', JStr ''2025-06-30''),
              (''tickets_available'', JInt 100), (''ticket_price'', JFloat 120)]] \<and>
   movie_fields exact_python (admin_request 0 ''Dune'' 50)
     ''Dune'' 2 ''2025-07-01'' ''2025-07-31'' 50 90 \<and>
   next_rowid (movies_seq matrix_db) (map id_movie (movies matrix_db)) = Inr 2 \<and>
   fst (add_movie exact_python (admin_request 0 ''Dune'' 50) matrix_db) = Ok ''Movie added'' \<and>
   list_movies (snd (update_movie exact_python (admin_request 2 ''Dune Two'' 40)
                  (snd (add_movie exact_python (admin_request 0 ''Dune'' 50) matrix_db)))) =
     Movies [[(''id'', JInt 1), (''title'', JStr ''The Matrix''), (''cinema_room'', JInt 1),
              (''release_date'', JStr ''2025-06-01''), (''end_date'', JStr ''2025-06-30''),
              (''tickets_available'', JInt 100), (''ticket_price'', JFloat 120)],
             [(''id'', JInt 2), (''title'', JStr ''Dune Two''), (''cinema_room'', JInt 2),
              (''release_date'', JStr ''2025-07-01''), (''end_date'', JStr ''2025-07-31''),
              (''tickets_available'', JInt 40), (''ticket_price'', JFloat 90)]] \<and>
   list_movies (snd (delete_movie exact_python (admin_request 2 ''Dune Two'' 40)
                  (snd (update_movie exact_python (admin_request 2 ''Dune Two'' 40)
                     (snd (add_movie exact_python (admin_request 0 ''Dune'' 50) matrix_db)))))) =
     Movies [[(''id'', JInt 1), (''title'', JStr ''The Matrix''), (''cinema_room'', JInt 1),
              (''release_date'', JStr ''2025-06-01''), (''end_date'', JStr ''2025-06-30''),
              (''tickets_available'', JInt 100), (''ticket_price'', JFloat 120)]]"
proof -
  have o: "list_movies matrix_db =
     Movies [[(''id'', JInt 1), (''title'', JStr ''The Matrix''), (''cinema_room'', JInt 1),
              (''release_date'', JStr ''2025-06-01''), (''end_date'', JStr ''2025-06-30''),
              (''tickets_available'', JInt 100), (''ticket_price'', JFloat 120)]]"
    by (simp add: list_movies_def movie_dict_def null_or_def matrix_db_def)
  have p: "movie_fields exact_python (admin_request 0 ''Dune'' 50)
     ''Dune'' 2 ''2025-07-01'' ''2025-07-31'' 50 90"
    and q: "movie_fields exact_python (admin_request 2 ''Dune Two'' 40)
     ''Dune Two'' 2 ''2025-07-01'' ''2025-07-31'' 40 90"
    "map_of (admin_request 2 ''Dune Two'' 40 :: rat payload) ''id'' = Some (JInt 2)"
    by (simp_all add: movie_fields_def admin_request_def int64_def exact_python_def)
  have i: "next_rowid (movies_seq matrix_db) (map id_movie (movies matrix_db)) = Inr 2"
    by (simp add: next_rowid_def matrix_db_def int64_def)
  have b: "\<not> float_is_nan exact_python 90"
    by (simp add: exact_python_def)
  show ?thesis
    using o p i b catalog_round_trip [OF o p i q q(2)] by simp
qed

text \<open>
  C4. From a store whose row ids ascend, after any connections served, \<^verbatim>\<open>list_movies\<close>
  answers with status \<open>ok\<close> and one dict per movie, all movies, in the order of the
  table (the empty list when there is no movie). The dict of a movie carries its id,
  title, room, dates (null for a date that is NULL), count and price (null for a price
  that is NULL) under the keys id, title, cinema_room, release_date, end_date,
  tickets_available, ticket_price, in this order; the ids of the dicts ascend strictly.
\<close>

theorem list_movies_ordered:
  assumes "ascending_ids db"
  shows "status (list_movies (serve_all P conns db)) = ''ok'' \<and>
         (\<exists>ds. list_movies (serve_all P conns db) = Movies ds \<and>
            ds = map (\<lambda>m. [(''id'', JInt (id_movie m)),
                            (''title'', JStr (title m)),
                            (''cinema_room'', JInt (cinema_room m)),
                            (''release_date'',
                               case release_date m of None \<Rightarrow> JNull | Some d \<Rightarrow> JStr d),
                            (''end_date'',
                               case end_date m of None \<Rightarrow> JNull | Some d \<Rightarrow> JStr d),
                            (''tickets_available'', JInt (tickets_available m)),
                            (''ticket_price'',
                               case ticket_price m of None \<Rightarrow> JNull | Some x \<Rightarrow> JFloat x)])
                   (movies (serve_all P conns db)) \<and>
            (movies (serve_all P conns db) = [] \<longrightarrow> ds = []) \<and>
            map dict_id ds = map (\<lambda>m. Some (id_movie m)) (movies (serve_all P conns db)) \<and>
            sorted_wrt (\<lambda>d d'. \<exists>a b. dict_id d = Some a \<and> dict_id d' = Some b \<and> a < b) ds \<and>
            (\<forall>d \<in> set ds. map fst d = movie_keys))"
proof -
  let ?s = "serve_all P conns db"
  have "ascending_ids ?s" using assms by (rule ascending_serve_all)
  then have "sorted_wrt (\<lambda>m m'. id_movie m < id_movie m') (movies ?s)"
    by (simp add: ascending_ids_def sorted_wrt_map)
  then have s: "sorted_wrt (\<lambda>d d'. \<exists>a b. dict_id d = Some a \<and> dict_id d' = Some b \<and> a < b)
               (map movie_dict (movies ?s))"
    by (simp add: sorted_wrt_map)
  have e: "map movie_dict (movies ?s) =
           map (\<lambda>m. [(''id'', JInt (id_movie m)),
                            (''title'', JStr (title m)),
                            (''cinema_room'', JInt (cinema_room m)),
                            (''release_date'',
                               case release_date m of None \<Rightarrow> JNull | Some d \<Rightarrow> JStr d),
                            (''end_date'',
                               case end_date m of None \<Rightarrow> JNull | Some d \<Rightarrow> JStr d),
                            (''tickets_available'', JInt (tickets_available m)),
                            (''ticket_price'',
                               case ticket_price m of None \<Rightarrow> JNull | Some x \<Rightarrow> JFloat x)])
                   (movies ?s)"
    by (simp add: movie_dict_def null_or_def)
  have "list_movies ?s = Movies (map movie_dict (movies ?s))"
    and "map dict_id (map movie_dict (movies ?s)) = map (\<lambda>m. Some (id_movie m)) (movies ?s)"
    and "\<forall>d \<in> set (map movie_dict (movies ?s)). map fst d = movie_keys"
    and "movies ?s = [] \<longrightarrow> map movie_dict (movies ?s) = []"
    and "status (list_movies ?s) = ''ok''"
    by (simp_all add: list_movies_def)
  with s show ?thesis unfolding e by blast
qed

theorem list_movies_ordered_witness:
  "ascending_ids (snd (add_movie exact_python (admin_request 0 ''Dune'' 50) matrix_db)) \<and>
   list_movies (serve_all exact_python [(env0, [''{}'', [CHR 0x0A]])]
      (snd (add_movie exact_python (admin_request 0 ''Dune'' 50) matrix_db))) =
     Movies [[(''id'', JInt 1), (''title'', JStr ''The Matrix''), (''cinema_room'', JInt 1),
              (''release_date'', JStr ''2025-06-01''), (''end_date'', JStr ''2025-06-30''),
              (''tickets_available'', JInt 100), (''ticket_price'', JFloat 120)],
             [(''id'', JInt 2), (''title'', JStr ''Dune''), (''cinema_room'', JInt 2),
              (''release_date'', JStr ''2025-07-01''), (''end_date'', JStr ''2025-07-31''),
              (''tickets_available'', JInt 50), (''ticket_price'', JFloat 90)]] \<and>
   status (list_movies (serve_all exact_python [(env0, [''{}'', [CHR 0x0A]])]
      (snd (add_movie exact_python (admin_request 0 ''Dune'' 50) matrix_db)))) = ''ok''"
proof -
  have a: "ascending_ids (snd (add_movie exact_python (admin_request 0 ''Dune'' 50) matrix_db))"
    using ids_add_movie [of matrix_db exact_python "admin_request 0 ''Dune'' 50"]
    by (simp add: ascending_ids_def matrix_db_def)
  have b: "movies (serve_all exact_python [(env0, [''{}'', [CHR 0x0A]])]
      (snd (add_movie exact_python (admin_request 0 ''Dune'' 50) matrix_db))) =
      [\<lparr>id_movie = 1, title = ''The Matrix'', cinema_room = 1,
         release_date = Some ''2025-06-01'', end_date = Some ''2025-06-30'',
         tickets_available = 100, ticket_price = Some 120\<rparr>,
       \<lparr>id_movie = 2, title = ''Dune'', cinema_room = 2,
         release_date = Some ''2025-07-01'', end_date = Some ''2025-07-31'',
         tickets_available = 50, ticket_price = Some 90\<rparr>]"
    by code_simp
  show ?thesis
    using a list_movies_ordered [OF a, of exact_python "[(env0, [''{}'', [CHR 0x0A]])]"]
    unfolding b by simp
qed

end
